theory Spec2Isabelle
  imports Complex_Main "HOL-Library.Char_ord" "HOL-Library.List_Lexorder"
    "HOL-Library.Option_ord" "HOL-Library.Product_Lexorder" "HOL-Library.Sublist"
begin

section \<open>Book manager: the request handlers of app.py\<close>

text \<open>
  The development embeds the handlers of \<^verbatim>\<open>app.py\<close>, the schema of
  \<^verbatim>\<open>schemas.py\<close>, the model of \<^verbatim>\<open>models.py\<close> and the error handlers of
  \<^verbatim>\<open>errors.py\<close>. The module \<^verbatim>\<open>api/v1/routes.py\<close> holds copies of the same
  handlers that app.py never registers; they differ from the ones embedded here in having
  no rate limits and in calling \<^verbatim>\<open>cache.delete('books')\<close> after a create, a bulk
  create and a bulk delete, and are not embedded a second time.

  The handlers are glue between libraries, so the embedding fixes what each library call
  does. These readings are used throughout:
  \<^item> marshmallow 3 (the handlers put \<^verbatim>\<open>schema.dump(...)\<close> straight into the response,
    which only the version 3 return value allows): \<^verbatim>\<open>Schema.validate\<close> returns the
    dictionary of errors, a schema without a \<^verbatim>\<open>Meta.unknown\<close> option reports unknown
    keys, in the iteration order of a Python set, and \<^verbatim>\<open>dump_only\<close> fields are not
    load fields;
  \<^item> Flask-Caching: \<^verbatim>\<open>cached(key_prefix=p)\<close> uses the key \<^verbatim>\<open>p\<close> itself unless
    \<^verbatim>\<open>p\<close> contains \<^verbatim>\<open>%s\<close>; \<^verbatim>\<open>cached(query_string=True)\<close> uses the request
    path followed by a digest of the sorted query arguments; the backend is the configured
    default \<^verbatim>\<open>simple\<close> one, a dictionary of (expiry, value) pairs (its pruning of a
    full dictionary is left out);
  \<^item> Flask-SQLAlchemy: \<^verbatim>\<open>get_or_404\<close> raises werkzeug's \<^verbatim>\<open>NotFound\<close>;
    \<^verbatim>\<open>paginate(error_out=False)\<close> replaces a page below 1 by 1 and a page size below 1
    by 20 and does not abort on a page without items, and as the handler passes no
    \<^verbatim>\<open>max_per_page\<close> the page size has no upper limit; \<^verbatim>\<open>bulk_save_objects\<close> inserts rows without writing the new
    primary keys back into the objects; after \<^verbatim>\<open>session.add\<close> and \<^verbatim>\<open>commit\<close>
    the object carries its primary key;
  \<^item> the store is the configured default, SQLite: a row gets the largest id plus one,
    \<^verbatim>\<open>lower\<close> folds ASCII letters only, \<^verbatim>\<open>LIKE\<close> has the wildcards \<^verbatim>\<open>%\<close> and
    \<^verbatim>\<open>_\<close> and no escape character, reads its operands up to their first NUL
    character and refuses a pattern of more than 50000 bytes, \<^verbatim>\<open>NULL\<close> sorts first, and
    an integer parameter outside the signed 64-bit range cannot be bound
    (\<^verbatim>\<open>OverflowError\<close>); an unavailable store is not modelled;
  \<^item> Flask and flask-restx: the resources sit behind \<^verbatim>\<open>Api(app)\<close>, whose error
    router sees an exception that leaves a handler first. It passes a
    \<^verbatim>\<open>ValidationError\<close> on to the function registered for it with
    \<^verbatim>\<open>register_error_handler\<close> when the application propagates exceptions
    (\<^verbatim>\<open>DEBUG\<close> or \<^verbatim>\<open>TESTING\<close> on: the default \<^verbatim>\<open>DevelopmentConfig\<close> and
    \<^verbatim>\<open>TestingConfig\<close>), and answers 500 itself otherwise
    (\<^verbatim>\<open>ProductionConfig\<close>).

  Rate limiting runs in a decorator before a handler is entered and is not modelled.
  A string is a list of characters, one \<^typ>\<open>char\<close> per code point (code points up to 255).
\<close>

subsection \<open>Python strings\<close>

fun str_nat :: "nat \<Rightarrow> string" where
  "str_nat n =
     (if n < 10 then [char_of (48 + n)]
      else str_nat (n div 10) @ [char_of (48 + n mod 10)])"

declare str_nat.simps [simp del]

definition str_int :: "int \<Rightarrow> string" where
  "str_int i = (if i < 0 then CHR ''-'' # str_nat (nat (- i)) else str_nat (nat i))"

definition hex_digit :: "nat \<Rightarrow> char" where
  "hex_digit n = (if n < 10 then char_of (48 + n) else char_of (87 + n))"

definition printable :: "char \<Rightarrow> bool" where
  "printable c =
     (let n = (of_char c :: nat)
      in \<not> (n < 32 \<or> (127 \<le> n \<and> n \<le> 160) \<or> n = 173))"

text \<open>\<^verbatim>\<open>repr\<close> of a string: double quotes when the string holds a single quote and no
  double quote, single quotes otherwise; the quote and the backslash are escaped.\<close>

definition py_escape :: "char \<Rightarrow> char \<Rightarrow> string" where
  "py_escape q c =
     (if c = q \<or> c = CHR 0x5C then [CHR 0x5C, c]
      else if c = CHR 0x09 then [CHR 0x5C, CHR ''t'']
      else if c = CHR 0x0A then [CHR 0x5C, CHR ''n'']
      else if c = CHR 0x0D then [CHR 0x5C, CHR ''r'']
      else if \<not> printable c
        then [CHR 0x5C, CHR ''x'', hex_digit (of_char c div 16), hex_digit (of_char c mod 16)]
      else [c])"

definition py_repr_str :: "string \<Rightarrow> string" where
  "py_repr_str s =
     (let q = (if CHR 0x27 \<in> set s \<and> CHR 0x22 \<notin> set s then CHR 0x22 else CHR 0x27)
      in [q] @ concat (map (py_escape q) s) @ [q])"

fun join :: "string \<Rightarrow> string list \<Rightarrow> string" where
  "join sep [] = []"
| "join sep [x] = x"
| "join sep (x # y # ys) = x @ sep @ join sep (y # ys)"

subsection \<open>JSON values, responses, exceptions\<close>

text \<open>A JSON value as \<^verbatim>\<open>request.get_json()\<close> returns it. An object is the association
  list of a Python dictionary, read with \<^const>\<open>map_of\<close>. \<open>JFloat m e\<close> is a number that is
  not an integer; no handler computes with it.\<close>

datatype json =
    JNull
  | JBool bool
  | JInt int
  | JFloat int int
  | JStr string
  | JList "json list"
  | JObj "(string \<times> json) list"

text \<open>What a handler returns: the body and the status code.\<close>

type_synonym response = "json \<times> nat"

datatype exn =
    HTTPException nat string string
  | ValidationError string nat
  | KeyError string
  | TypeError string
  | AttributeError string
  | OverflowError string
  | OperationalError string

text \<open>\<^verbatim>\<open>str(e)\<close>. werkzeug prints an HTTP exception as code, name and description;
  \<^verbatim>\<open>ValidationError\<close> of errors.py does not override \<^verbatim>\<open>__str__\<close>, so it prints its
  only constructor argument, the message; a \<^verbatim>\<open>KeyError\<close> prints the \<^verbatim>\<open>repr\<close> of
  the key.\<close>

fun str_exn :: "exn \<Rightarrow> string" where
  "str_exn (HTTPException code name description) =
     str_nat code @ '' '' @ name @ '': '' @ description"
| "str_exn (ValidationError message status_code) = message"
| "str_exn (KeyError k) = py_repr_str k"
| "str_exn (TypeError m) = m"
| "str_exn (AttributeError m) = m"
| "str_exn (OverflowError m) = m"
| "str_exn (OperationalError m) = m"

definition NotFound :: exn where
  "NotFound = HTTPException 404 ''Not Found''
     ''The requested URL was not found on the server. If you entered the URL manually please check your spelling and try again.''"

subsection \<open>errors.py\<close>

text \<open>\<^verbatim>\<open>ValidationError(message, status_code=400)\<close>: every \<^verbatim>\<open>raise\<close> of the handlers
  passes the message only.\<close>

definition ValidationError_init :: "string \<Rightarrow> exn" where
  "ValidationError_init message = ValidationError message 400"

text \<open>A raised \<^verbatim>\<open>ValidationError\<close> as the error router receives it: its
  \<^verbatim>\<open>message\<close> and its \<^verbatim>\<open>status_code\<close>.\<close>

type_synonym raised = "string \<times> nat"

definition handle_validation_error :: "raised \<Rightarrow> response" where
  "handle_validation_error e = (JObj [(''error'', JStr (fst e))], snd e)"

text \<open>\<^verbatim>\<open>handle_http_error\<close> and \<^verbatim>\<open>handle_generic_error\<close> are registered for
  \<^verbatim>\<open>HTTPException\<close> and \<^verbatim>\<open>Exception\<close>. Every handler re-raises what it catches
  as a \<^verbatim>\<open>ValidationError\<close>, so neither is called for a request that has reached a
  handler, and they are not embedded.\<close>

subsection \<open>models.py: the Book row\<close>

text \<open>An object of class \<^verbatim>\<open>Book\<close>. The primary key is \<open>None\<close> until the store has
  assigned it and the object has been refreshed.\<close>

record Book =
  id_field :: "int option"
  title :: string
  author :: string
  published_date :: "string option"
  summary :: "string option"

subsection \<open>schemas.py: BookSchema\<close>

text \<open>marshmallow's error dictionary: field name to messages.\<close>

type_synonym errors = "(string \<times> string list) list"

definition Length :: "nat \<Rightarrow> nat \<Rightarrow> string \<Rightarrow> string list" where
  "Length mn mx v =
     (if length v < mn \<or> mx < length v
      then [''Length must be between '' @ str_nat mn @ '' and '' @ str_nat mx @ ''.'']
      else [])"

definition is_digit :: "char \<Rightarrow> bool" where
  "is_digit c = (CHR ''0'' \<le> c \<and> c \<le> CHR ''9'')"

text \<open>\<^verbatim>\<open>re.match(r'^\d{4}-\d{2}-\d{2}$', s)\<close>: Python's \<^verbatim>\<open>$\<close> also matches before a
  final newline.\<close>

definition date_regex_match :: "string \<Rightarrow> bool" where
  "date_regex_match s =
     (10 \<le> length s \<and>
      list_all is_digit (take 4 s) \<and> s ! 4 = CHR ''-'' \<and>
      list_all is_digit (take 2 (drop 5 s)) \<and> s ! 7 = CHR ''-'' \<and>
      list_all is_digit (take 2 (drop 8 s)) \<and>
      (drop 10 s = [] \<or> drop 10 s = [CHR 0x0A]))"

definition Regexp_date :: "string \<Rightarrow> string list" where
  "Regexp_date v =
     (if date_regex_match v then [] else [''String does not match expected pattern.''])"

definition no_validator :: "string \<Rightarrow> string list" where
  "no_validator v = []"

text \<open>\<^verbatim>\<open>fields.Str\<close> on the raw value of a key (\<open>None\<close>: the key is missing): the
  messages of the field, empty when the value is accepted.\<close>

fun Str_field :: "bool \<Rightarrow> (string \<Rightarrow> string list) \<Rightarrow> json option \<Rightarrow> string list" where
  "Str_field required validators None =
     (if required then [''Missing data for required field.''] else [])"
| "Str_field required validators (Some JNull) = [''Field may not be null.'']"
| "Str_field required validators (Some (JStr s)) = validators s"
| "Str_field required validators (Some v) = [''Not a valid string.'']"

text \<open>The fields \<^verbatim>\<open>BookSchema\<close> loads, in declaration order. \<^verbatim>\<open>id\<close> is
  \<^verbatim>\<open>dump_only\<close> and is not among them.\<close>

definition load_fields :: "(string \<times> bool \<times> (string \<Rightarrow> string list)) list" where
  "load_fields =
     [(''title'', True, Length 1 100),
      (''author'', True, Length 1 100),
      (''published_date'', False, Regexp_date),
      (''summary'', False, no_validator)]"

definition field_names :: "string list" where
  "field_names = [''title'', ''author'', ''published_date'', ''summary'']"

definition field_errors :: "(string \<times> json) list \<Rightarrow> errors" where
  "field_errors kvs =
     filter (\<lambda>(name, msgs). msgs \<noteq> [])
       (map (\<lambda>(name, required, validators). (name, Str_field required validators (map_of kvs name)))
          load_fields)"

text \<open>The order in which Python iterates a set of keys is any arrangement of them, fixed
  by the hash seed of the process. It is the parameter \<open>ord\<close>, which proposes an
  arrangement of the keys it is given; a proposal that is not one (another set of keys,
  or a different number of them) is replaced by the keys as given.\<close>

type_synonym set_order = "string list \<Rightarrow> string list"

definition set_iteration :: "set_order \<Rightarrow> string list \<Rightarrow> string list" where
  "set_iteration ord ks =
     (if set (ord ks) = set ks \<and> length (ord ks) = length ks then ord ks else ks)"

text \<open>marshmallow's loop over \<^verbatim>\<open>set(data) - fields\<close>: one error for every key that is
  not a load field.\<close>

definition unknown_errors :: "set_order \<Rightarrow> (string \<times> json) list \<Rightarrow> errors" where
  "unknown_errors ord kvs =
     map (\<lambda>k. (k, [''Unknown field.'']))
       (set_iteration ord (filter (\<lambda>k. k \<notin> set field_names) (remdups (map fst kvs))))"

text \<open>\<^verbatim>\<open>book_schema.validate(data)\<close>: the errors of the load fields, then the errors
  of the unknown keys; a value that is not a dictionary is an error of the whole
  schema.\<close>

definition validate :: "set_order \<Rightarrow> json \<Rightarrow> errors" where
  "validate ord data =
     (case data of
        JObj kvs \<Rightarrow> field_errors kvs @ unknown_errors ord kvs
      | _ \<Rightarrow> [(''_schema'', [''Invalid input type.''])])"

text \<open>\<^verbatim>\<open>str(errors)\<close> of an error dictionary.\<close>

definition py_str_list :: "string list \<Rightarrow> string" where
  "py_str_list ms = ''['' @ join '', '' (map py_repr_str ms) @ '']''"

definition py_str_errors :: "errors \<Rightarrow> string" where
  "py_str_errors errs =
     ''{'' @ join '', '' (map (\<lambda>(k, ms). py_repr_str k @ '': '' @ py_str_list ms) errs) @ ''}''"

text \<open>An error dictionary as a JSON value of a response.\<close>

definition errors_json :: "errors \<Rightarrow> json" where
  "errors_json errs = JObj (map (\<lambda>(k, ms). (k, JList (map JStr ms))) errs)"

text \<open>\<^verbatim>\<open>book_schema.dump(book)\<close>: all five fields, \<^verbatim>\<open>None\<close> as \<^verbatim>\<open>null\<close>.\<close>

definition json_opt_str :: "string option \<Rightarrow> json" where
  "json_opt_str v = (case v of None \<Rightarrow> JNull | Some s \<Rightarrow> JStr s)"

definition dump :: "Book \<Rightarrow> json" where
  "dump book =
     JObj [(''id'', (case id_field book of None \<Rightarrow> JNull | Some i \<Rightarrow> JInt i)),
           (''title'', JStr (title book)),
           (''author'', JStr (author book)),
           (''published_date'', json_opt_str (published_date book)),
           (''summary'', json_opt_str (summary book))]"

definition dump_many :: "Book list \<Rightarrow> json" where
  "dump_many books = JList (map dump books)"

subsection \<open>The store (Flask-SQLAlchemy on SQLite)\<close>

definition ids :: "Book list \<Rightarrow> int list" where
  "ids rs = List.map_filter id_field rs"

text \<open>The primary key SQLite gives a new row: one more than the largest in the table.\<close>

definition new_id :: "Book list \<Rightarrow> int" where
  "new_id rs = fold max (ids rs) 0 + 1"

definition get_by_id :: "Book list \<Rightarrow> int \<Rightarrow> Book option" where
  "get_by_id rs i = find (\<lambda>b. id_field b = Some i) rs"

text \<open>An integer that SQLite can bind as a statement parameter: a signed 64-bit one. The
  driver raises \<^verbatim>\<open>OverflowError\<close> for any other.\<close>

definition sqlite_int :: "int \<Rightarrow> bool" where
  "sqlite_int i = (- (2 ^ 63) \<le> i \<and> i < 2 ^ 63)"

definition int_too_large :: exn where
  "int_too_large = OverflowError ''Python int too large to convert to SQLite INTEGER''"

text \<open>\<^verbatim>\<open>Book.query.get_or_404(book_id)\<close>: the id is bound into a \<^verbatim>\<open>SELECT\<close>.\<close>

definition get_or_404 :: "Book list \<Rightarrow> int \<Rightarrow> exn + Book" where
  "get_or_404 rs i =
     (if \<not> sqlite_int i then Inl int_too_large
      else case get_by_id rs i of None \<Rightarrow> Inl NotFound | Some b \<Rightarrow> Inr b)"

text \<open>\<^verbatim>\<open>db.session.add(new_book); db.session.commit()\<close>: the new table and the object
  as the next attribute access reloads it.\<close>

definition session_add_commit :: "Book list \<Rightarrow> Book \<Rightarrow> Book list \<times> Book" where
  "session_add_commit rs book =
     (let b = book\<lparr>id_field := Some (new_id rs)\<rparr> in (rs @ [b], b))"

text \<open>\<^verbatim>\<open>db.session.bulk_save_objects(new_books); db.session.commit()\<close>: the rows are
  inserted in order; the objects themselves are left as they are.\<close>

fun bulk_save_objects :: "Book list \<Rightarrow> Book list \<Rightarrow> Book list" where
  "bulk_save_objects rs [] = rs"
| "bulk_save_objects rs (b # bs) =
     bulk_save_objects (rs @ [b\<lparr>id_field := Some (new_id rs)\<rparr>]) bs"

text \<open>Committing a modified object, and \<^verbatim>\<open>db.session.delete(book)\<close> with its commit.\<close>

definition commit_update :: "Book list \<Rightarrow> Book \<Rightarrow> Book list" where
  "commit_update rs book = map (\<lambda>b. if id_field b = id_field book then book else b) rs"

definition session_delete :: "Book list \<Rightarrow> Book \<Rightarrow> Book list" where
  "session_delete rs book = filter (\<lambda>b. id_field b \<noteq> id_field book) rs"

subsection \<open>models.py: Book.search\<close>

definition ascii_lower :: "char \<Rightarrow> char" where
  "ascii_lower c =
     (if CHR ''A'' \<le> c \<and> c \<le> CHR ''Z'' then char_of (of_char c + (32::nat)) else c)"

definition lower :: "string \<Rightarrow> string" where
  "lower s = map ascii_lower s"

text \<open>SQL \<^verbatim>\<open>LIKE\<close>: \<^verbatim>\<open>%\<close> matches any run of characters, \<^verbatim>\<open>_\<close> any one
  character, every other character itself. The first argument is the pattern.\<close>

fun like :: "string \<Rightarrow> string \<Rightarrow> bool" where
  "like [] s = (s = [])"
| "like (p # ps) [] = (p = CHR ''%'' \<and> like ps [])"
| "like (p # ps) (c # cs) =
     (if p = CHR ''%'' then like ps (c # cs) \<or> like (p # ps) cs
      else (p = CHR ''_'' \<or> p = c) \<and> like ps cs)"

text \<open>SQLite reads the operands of \<^verbatim>\<open>LIKE\<close> as C strings: up to the first NUL
  character.\<close>

definition c_string :: "string \<Rightarrow> string" where
  "c_string s = takeWhile (\<lambda>c. c \<noteq> CHR 0x00) s"

text \<open>The length of a string in bytes of UTF-8 (code points up to 255 take one byte or
  two).\<close>

definition utf8_length :: "string \<Rightarrow> int" where
  "utf8_length s = sum_list (map (\<lambda>c. if (of_char c :: int) < 128 then 1 else 2) s)"

text \<open>\<^verbatim>\<open>column.ilike(pattern)\<close>, which SQLAlchemy compiles for SQLite to
  \<^verbatim>\<open>lower(column) LIKE lower(pattern)\<close>; a \<^verbatim>\<open>NULL\<close> column never matches.\<close>

definition ilike :: "string option \<Rightarrow> string \<Rightarrow> bool" where
  "ilike col pattern =
     (case col of
        None \<Rightarrow> False
      | Some s \<Rightarrow> like (c_string (lower pattern)) (c_string (lower s)))"

definition search_matches :: "string \<Rightarrow> Book \<Rightarrow> bool" where
  "search_matches query b =
     (ilike (Some (title b)) (''%'' @ query @ ''%'') \<or>
      ilike (Some (author b)) (''%'' @ query @ ''%'') \<or>
      ilike (summary b) (''%'' @ query @ ''%''))"

definition like_pattern_too_complex :: exn where
  "like_pattern_too_complex = OperationalError ''LIKE or GLOB pattern too complex''"

text \<open>\<^verbatim>\<open>Book.search(query)\<close>, as the rows its \<^verbatim>\<open>SELECT\<close> yields when it is run.
  SQLite refuses a pattern of more than 50000 bytes when it first evaluates
  \<^verbatim>\<open>LIKE\<close>, which it does on the first row of a table that has one. (Of the message
  SQLAlchemy prints for the refusal, only SQLite's own text is kept.)\<close>

definition Book_search :: "string \<Rightarrow> Book list \<Rightarrow> exn + Book list" where
  "Book_search query rs =
     (if rs \<noteq> [] \<and> 50000 < utf8_length (''%'' @ query @ ''%'')
      then Inl like_pattern_too_complex
      else Inr (filter (search_matches query) rs))"

subsection \<open>Sorting and pagination\<close>

datatype column = Col_title | Col_author | Col_published_date

datatype sort_order = Asc | Desc

fun column_value :: "column \<Rightarrow> Book \<Rightarrow> string option" where
  "column_value Col_title b = Some (title b)"
| "column_value Col_author b = Some (author b)"
| "column_value Col_published_date b = published_date b"

text \<open>\<^verbatim>\<open>query.order_by(column)\<close> and \<^verbatim>\<open>query.order_by(column.desc())\<close>. SQL leaves
  the order of rows with equal keys open; here it is the one of a stable sort, reversed
  for \<^verbatim>\<open>desc\<close>.\<close>

definition order_by :: "column \<Rightarrow> sort_order \<Rightarrow> Book list \<Rightarrow> Book list" where
  "order_by c ord rs =
     (if ord = Desc then rev (sort_key (column_value c) rs) else sort_key (column_value c) rs)"

record Pagination =
  items :: "Book list"
  total :: nat
  pg_page :: int
  pg_per_page :: int

text \<open>\<^verbatim>\<open>query.paginate(page=page, per_page=per_page, error_out=False)\<close>. The query is
  given by what running it without a limit yields: its rows, or the error of the store.
  \<^verbatim>\<open>paginate\<close> binds the page size as \<^verbatim>\<open>LIMIT\<close> and \<^verbatim>\<open>(page - 1) * per_page\<close>
  as \<^verbatim>\<open>OFFSET\<close>, which fails before the statement is run when either is not a
  64-bit integer.\<close>

definition paginate :: "exn + Book list \<Rightarrow> int \<Rightarrow> int \<Rightarrow> exn + Pagination" where
  "paginate query page_arg per_page_arg =
     (let page1 = (if page_arg < 1 then 1 else page_arg);
          per_page1 = (if per_page_arg < 1 then 20 else per_page_arg)
      in if \<not> sqlite_int per_page1 \<or> \<not> sqlite_int ((page1 - 1) * per_page1)
         then Inl int_too_large
         else
           (case query of
              Inl e \<Rightarrow> Inl e
            | Inr rs \<Rightarrow>
                Inr \<lparr>items = take (nat per_page1) (drop (nat ((page1 - 1) * per_page1)) rs),
                     total = length rs,
                     pg_page = page1,
                     pg_per_page = per_page1\<rparr>))"

text \<open>\<^verbatim>\<open>Pagination.pages\<close>: 0 for an empty result, else the ceiling of
  \<^verbatim>\<open>total / per_page\<close>. It is computed here on integers where Python divides floats;
  the two agree for a total below \<open>2 ^ 53\<close>, more rows than an SQLite file can hold.\<close>

definition pages :: "Pagination \<Rightarrow> int" where
  "pages p = (if total p = 0 then 0 else - ((- int (total p)) div pg_per_page p))"

subsection \<open>The cache (Flask-Caching, backend \<^verbatim>\<open>simple\<close>)\<close>

text \<open>The dictionary of the backend: key to expiry time and value. Time is in seconds.\<close>

type_synonym cache_dict = "(string \<times> nat \<times> response) list"

definition cache_get :: "cache_dict \<Rightarrow> nat \<Rightarrow> string \<Rightarrow> response option" where
  "cache_get c now key =
     (case map_of c key of
        None \<Rightarrow> None
      | Some (expires, v) \<Rightarrow> if expires = 0 \<or> now < expires then Some v else None)"

definition cache_delete :: "cache_dict \<Rightarrow> string \<Rightarrow> cache_dict" where
  "cache_delete c key = filter (\<lambda>(k, ev). k \<noteq> key) c"

definition cache_set :: "cache_dict \<Rightarrow> nat \<Rightarrow> string \<Rightarrow> response \<Rightarrow> nat \<Rightarrow> cache_dict" where
  "cache_set c now key v timeout =
     (key, (if 0 < timeout then now + timeout else 0), v) # cache_delete c key"

record app_state =
  rows :: "Book list"
  cache :: cache_dict

text \<open>The decorator \<^verbatim>\<open>cache.cached(timeout=...)\<close> around a view, with the key already
  made: a live entry is returned as it is and the view is not run; otherwise the view
  runs and its return value is stored. A view that raises stores nothing.\<close>

definition cached ::
  "nat \<Rightarrow> string \<Rightarrow> (app_state \<Rightarrow> app_state \<times> (raised + response)) \<Rightarrow> nat \<Rightarrow> app_state
     \<Rightarrow> app_state \<times> (raised + response)" where
  "cached timeout cache_key f now st =
     (case cache_get (cache st) now cache_key of
        Some rv \<Rightarrow> (st, Inr rv)
      | None \<Rightarrow>
          (case f st of
             (st1, Inl e) \<Rightarrow> (st1, Inl e)
           | (st1, Inr rv) \<Rightarrow>
               (st1\<lparr>cache := cache_set (cache st1) now cache_key rv timeout\<rparr>, Inr rv)))"

text \<open>The key of \<^verbatim>\<open>cached(key_prefix=p)\<close>: \<^verbatim>\<open>p % request.path\<close> when \<^verbatim>\<open>p\<close>
  contains \<^verbatim>\<open>%s\<close>, and \<^verbatim>\<open>p\<close> itself otherwise.\<close>

fun percent_s :: "string \<Rightarrow> string \<Rightarrow> string" where
  "percent_s (a # b # rest) arg =
     (if a = CHR ''%'' \<and> b = CHR ''s'' then arg @ rest else a # percent_s (b # rest) arg)"
| "percent_s t arg = t"

definition make_cache_key :: "string \<Rightarrow> string \<Rightarrow> string" where
  "make_cache_key key_prefix path =
     (if sublist ''%s'' key_prefix then percent_s key_prefix path else key_prefix)"

text \<open>The key of \<^verbatim>\<open>cached(query_string=True)\<close>: the request path followed by the
  digest of the sorted argument pairs. The digest (MD5 of the printed tuple) is the
  parameter \<open>hash_method\<close>.\<close>

definition make_cache_key_query_string ::
  "((string \<times> string) list \<Rightarrow> string) \<Rightarrow> string \<Rightarrow> (string \<times> string) list \<Rightarrow> string" where
  "make_cache_key_query_string hash_method path args = path @ hash_method (sort args)"

subsection \<open>Python operations on a payload\<close>

definition sq :: "string \<Rightarrow> string" where
  "sq s = CHR 0x27 # s @ [CHR 0x27]"

fun type_name :: "json \<Rightarrow> string" where
  "type_name JNull = ''NoneType''"
| "type_name (JBool b) = ''bool''"
| "type_name (JInt i) = ''int''"
| "type_name (JFloat m e) = ''float''"
| "type_name (JStr s) = ''str''"
| "type_name (JList xs) = ''list''"
| "type_name (JObj kvs) = ''dict''"

text \<open>\<^verbatim>\<open>data[key]\<close> for a string key.\<close>

fun subscript :: "json \<Rightarrow> string \<Rightarrow> exn + json" where
  "subscript (JObj kvs) key =
     (case map_of kvs key of None \<Rightarrow> Inl (KeyError key) | Some v \<Rightarrow> Inr v)"
| "subscript (JList xs) key = Inl (TypeError ''list indices must be integers or slices, not str'')"
| "subscript (JStr s) key = Inl (TypeError (''string indices must be integers, not '' @ sq ''str''))"
| "subscript v key = Inl (TypeError (sq (type_name v) @ '' object is not subscriptable''))"

text \<open>\<^verbatim>\<open>data.get(key)\<close>.\<close>

fun dict_get :: "json \<Rightarrow> string \<Rightarrow> exn + json option" where
  "dict_get (JObj kvs) key = Inr (map_of kvs key)"
| "dict_get v key = Inl (AttributeError (sq (type_name v) @ '' object has no attribute '' @ sq ''get''))"

text \<open>\<^verbatim>\<open>len(v)\<close> followed by \<^verbatim>\<open>enumerate(v)\<close>: the elements, or the error of
  \<^verbatim>\<open>len\<close>. A string iterates over its characters, a dictionary over its keys.\<close>

fun len_then_iterate :: "json \<Rightarrow> exn + json list" where
  "len_then_iterate (JList xs) = Inr xs"
| "len_then_iterate (JStr s) = Inr (map (\<lambda>c. JStr [c]) s)"
| "len_then_iterate (JObj kvs) = Inr (map JStr (remdups (map fst kvs)))"
| "len_then_iterate v = Inl (TypeError (''object of type '' @ sq (type_name v) @ '' has no len()''))"

text \<open>Truth of a value, as \<^verbatim>\<open>if not book_ids\<close> tests it.\<close>

fun truthy :: "json \<Rightarrow> bool" where
  "truthy JNull = False"
| "truthy (JBool b) = b"
| "truthy (JInt i) = (i \<noteq> 0)"
| "truthy (JFloat m e) = (m \<noteq> 0)"
| "truthy (JStr s) = (s \<noteq> [])"
| "truthy (JList xs) = (xs \<noteq> [])"
| "truthy (JObj kvs) = (kvs \<noteq> [])"

text \<open>The string held by a value. The handlers read a payload only after
  \<^const>\<open>validate\<close> has returned no error, when every value read is a string; the second
  equation is never used then.\<close>

fun str_value :: "json \<Rightarrow> string" where
  "str_value (JStr s) = s"
| "str_value v = []"

text \<open>\<^verbatim>\<open>Book(title=data['title'], author=data['author'],
  published_date=data.get('published_date'), summary=data.get('summary'))\<close>.\<close>

definition new_Book :: "json \<Rightarrow> exn + Book" where
  "new_Book data =
     (case subscript data ''title'' of Inl e \<Rightarrow> Inl e | Inr t \<Rightarrow>
      (case subscript data ''author'' of Inl e \<Rightarrow> Inl e | Inr a \<Rightarrow>
       (case dict_get data ''published_date'' of Inl e \<Rightarrow> Inl e | Inr pd \<Rightarrow>
        (case dict_get data ''summary'' of Inl e \<Rightarrow> Inl e | Inr sm \<Rightarrow>
           Inr \<lparr>id_field = None, title = str_value t, author = str_value a,
                published_date = map_option str_value pd,
                summary = map_option str_value sm\<rparr>))))"

text \<open>\<^verbatim>\<open>data.get(key, dflt)\<close> on a dictionary, for a string column and for a
  nullable one.\<close>

definition get_str :: "(string \<times> json) list \<Rightarrow> string \<Rightarrow> string \<Rightarrow> string" where
  "get_str kvs key dflt = (case map_of kvs key of None \<Rightarrow> dflt | Some v \<Rightarrow> str_value v)"

definition get_opt_str :: "(string \<times> json) list \<Rightarrow> string \<Rightarrow> string option \<Rightarrow> string option" where
  "get_opt_str kvs key dflt =
     (case map_of kvs key of None \<Rightarrow> dflt | Some v \<Rightarrow> Some (str_value v))"

subsection \<open>app.py: the handlers\<close>

text \<open>Every handler body runs inside \<^verbatim>\<open>try: ... except Exception as e: ... raise
  ValidationError(str(e))\<close>, so what leaves a handler is its return value or a
  \<^verbatim>\<open>ValidationError\<close> with the message \<^verbatim>\<open>str(e)\<close> and the default status code.
  The bodies change the table only by their commit, after which nothing raises, so the
  \<^verbatim>\<open>rollback\<close> of the \<^verbatim>\<open>except\<close> branch finds nothing to undo.\<close>

definition except_Exception :: "app_state \<times> (exn + response) \<Rightarrow> app_state \<times> (raised + response)" where
  "except_Exception r =
     (case r of
        (st, Inl e) \<Rightarrow> (st, Inl (str_exn e, 400))
      | (st, Inr v) \<Rightarrow> (st, Inr v))"

text \<open>The result of \<^verbatim>\<open>pagination_parser.parse_args()\<close>: the typed arguments, or the
  exception of its \<^verbatim>\<open>abort(400)\<close>. A list request carries it together with the raw
  query arguments, from which the cache key is made.\<close>

record list_args =
  page :: int
  per_page :: int
  sort_field :: "column option"
  order_arg :: sort_order
  search_query :: "string option"

record list_request =
  query_args :: "(string \<times> string) list"
  parse_args :: "exn + list_args"

text \<open>\<^verbatim>\<open>if search_query: query = Book.search(search_query)\<close>; an empty string is false.\<close>

definition apply_search :: "list_args \<Rightarrow> Book list \<Rightarrow> exn + Book list" where
  "apply_search args rs =
     (case search_query args of
        None \<Rightarrow> Inr rs
      | Some s \<Rightarrow> if s = [] then Inr rs else Book_search s rs)"

text \<open>\<^verbatim>\<open>if sort_field: ... query = query.order_by(sort_column)\<close>.\<close>

definition apply_sort :: "list_args \<Rightarrow> exn + Book list \<Rightarrow> exn + Book list" where
  "apply_sort args query =
     (case sort_field args of
        None \<Rightarrow> query
      | Some c \<Rightarrow>
          (case query of
             Inl e \<Rightarrow> Inl e
           | Inr rs \<Rightarrow> Inr (order_by c (order_arg args) rs)))"

text \<open>\<^verbatim>\<open>search_query if search_query else None\<close>.\<close>

definition search_query_json :: "list_args \<Rightarrow> json" where
  "search_query_json args =
     (case search_query args of
        None \<Rightarrow> JNull
      | Some s \<Rightarrow> if s = [] then JNull else JStr s)"

definition BookList_get_body :: "app_state \<Rightarrow> exn + list_args \<Rightarrow> exn + response" where
  "BookList_get_body st parsed =
     (case parsed of
        Inl e \<Rightarrow> Inl e
      | Inr args \<Rightarrow>
          (let query = apply_sort args (apply_search args (rows st)) in
           case paginate query (page args) (per_page args) of
             Inl e \<Rightarrow> Inl e
           | Inr pagination \<Rightarrow>
               Inr (JObj [(''status'', JStr ''success''),
                          (''data'', dump_many (items pagination)),
                          (''page'', JInt (page args)),
                          (''per_page'', JInt (per_page args)),
                          (''total_pages'', JInt (pages pagination)),
                          (''total_items'', JInt (int (total pagination))),
                          (''search_query'', search_query_json args)],
                    200)))"

definition BookList_get ::
  "((string \<times> string) list \<Rightarrow> string) \<Rightarrow> nat \<Rightarrow> app_state \<Rightarrow> list_request
     \<Rightarrow> app_state \<times> (raised + response)" where
  "BookList_get hash_method now st req =
     cached 300 (make_cache_key_query_string hash_method ''/books'' (query_args req))
       (\<lambda>s. except_Exception (s, BookList_get_body s (parse_args req))) now st"

definition BookList_post_body ::
  "set_order \<Rightarrow> app_state \<Rightarrow> exn + json \<Rightarrow> app_state \<times> (exn + response)" where
  "BookList_post_body ord st get_json =
     (case get_json of
        Inl e \<Rightarrow> (st, Inl e)
      | Inr data \<Rightarrow>
          (let errors = validate ord data in
           if errors \<noteq> [] then (st, Inl (ValidationError_init (py_str_errors errors)))
           else
             (case new_Book data of
                Inl e \<Rightarrow> (st, Inl e)
              | Inr new_book \<Rightarrow>
                  (case session_add_commit (rows st) new_book of
                     (rows1, b) \<Rightarrow>
                       (st\<lparr>rows := rows1\<rparr>,
                        Inr (JObj [(''status'', JStr ''success''),
                                   (''message'', JStr ''Book created successfully''),
                                   (''data'', dump b)],
                             201))))))"

definition BookList_post ::
  "set_order \<Rightarrow> app_state \<Rightarrow> exn + json \<Rightarrow> app_state \<times> (raised + response)" where
  "BookList_post ord st get_json = except_Exception (BookList_post_body ord st get_json)"

definition BookResource_put_body ::
  "set_order \<Rightarrow> app_state \<Rightarrow> int \<Rightarrow> exn + json \<Rightarrow> app_state \<times> (exn + response)" where
  "BookResource_put_body ord st book_id get_json =
     (case get_or_404 (rows st) book_id of
        Inl e \<Rightarrow> (st, Inl e)
      | Inr book \<Rightarrow>
          (case get_json of
             Inl e \<Rightarrow> (st, Inl e)
           | Inr data \<Rightarrow>
               (let errors = validate ord data in
                if errors \<noteq> [] then (st, Inl (ValidationError_init (py_str_errors errors)))
                else
                  (case data of
                     JObj kvs \<Rightarrow>
                       (let book1 = book\<lparr>title := get_str kvs ''title'' (title book),
                                         author := get_str kvs ''author'' (author book),
                                         published_date :=
                                           get_opt_str kvs ''published_date'' (published_date book),
                                         summary := get_opt_str kvs ''summary'' (summary book)\<rparr>;
                            cache1 = cache_delete (cache st) (''book'' @ str_int book_id);
                            cache2 = cache_delete cache1 ''books''
                        in (\<lparr>rows = commit_update (rows st) book1, cache = cache2\<rparr>,
                            Inr (JObj [(''status'', JStr ''success''),
                                       (''message'', JStr ''Book updated successfully''),
                                       (''data'', dump book1)],
                                 200)))
                   | _ \<Rightarrow>
                       (st, Inl (AttributeError
                                   (sq (type_name data) @ '' object has no attribute '' @ sq ''get'')))))))"

definition BookResource_put ::
  "set_order \<Rightarrow> app_state \<Rightarrow> int \<Rightarrow> exn + json \<Rightarrow> app_state \<times> (raised + response)" where
  "BookResource_put ord st book_id get_json =
     except_Exception (BookResource_put_body ord st book_id get_json)"

definition BookResource_delete_body :: "app_state \<Rightarrow> int \<Rightarrow> app_state \<times> (exn + response)" where
  "BookResource_delete_body st book_id =
     (case get_or_404 (rows st) book_id of
        Inl e \<Rightarrow> (st, Inl e)
      | Inr book \<Rightarrow>
          (let cache1 = cache_delete (cache st) (''book'' @ str_int book_id);
               cache2 = cache_delete cache1 ''books''
           in (\<lparr>rows = session_delete (rows st) book, cache = cache2\<rparr>,
               Inr (JObj [(''status'', JStr ''success''),
                          (''message'', JStr ''Book deleted successfully'')],
                    200))))"

definition BookResource_delete :: "app_state \<Rightarrow> int \<Rightarrow> app_state \<times> (raised + response)" where
  "BookResource_delete st book_id = except_Exception (BookResource_delete_body st book_id)"

definition BookResource_get_body :: "app_state \<Rightarrow> int \<Rightarrow> exn + response" where
  "BookResource_get_body st book_id =
     (case get_or_404 (rows st) book_id of
        Inl e \<Rightarrow> Inl e
      | Inr book \<Rightarrow> Inr (JObj [(''status'', JStr ''success''), (''data'', dump book)], 200))"

text \<open>\<^verbatim>\<open>@cache.cached(timeout=300, key_prefix='book')\<close> around \<^verbatim>\<open>get(self, book_id)\<close>;
  the request path is \<^verbatim>\<open>/books/<book_id>\<close>.\<close>

definition BookResource_get :: "nat \<Rightarrow> app_state \<Rightarrow> int \<Rightarrow> app_state \<times> (raised + response)" where
  "BookResource_get now st book_id =
     cached 300 (make_cache_key ''book'' (''/books/'' @ str_int book_id))
       (\<lambda>s. except_Exception (s, BookResource_get_body s book_id)) now st"

text \<open>The entry \<^verbatim>\<open>{'index': idx, 'errors': book_errors}\<close> of the bulk create's error
  list.\<close>

definition item_error :: "nat \<Rightarrow> errors \<Rightarrow> json" where
  "item_error idx book_errors =
     JObj [(''index'', JInt (int idx)), (''errors'', errors_json book_errors)]"

text \<open>The loop of the bulk create over \<^verbatim>\<open>enumerate(books_data)\<close>, with its two
  accumulators.\<close>

fun bulk_loop ::
  "set_order \<Rightarrow> nat \<Rightarrow> json list \<Rightarrow> json list \<Rightarrow> Book list
     \<Rightarrow> exn + (json list \<times> Book list)" where
  "bulk_loop ord idx [] errors new_books = Inr (errors, new_books)"
| "bulk_loop ord idx (book_data # rest) errors new_books =
     (let book_errors = validate ord book_data in
      if book_errors \<noteq> []
      then bulk_loop ord (idx + 1) rest (errors @ [item_error idx book_errors]) new_books
      else
        (case new_Book book_data of
           Inl e \<Rightarrow> Inl e
         | Inr new_book \<Rightarrow> bulk_loop ord (idx + 1) rest errors (new_books @ [new_book])))"

definition BulkBookOperations_post_body ::
  "set_order \<Rightarrow> app_state \<Rightarrow> exn + json \<Rightarrow> app_state \<times> (exn + response)" where
  "BulkBookOperations_post_body ord st get_json =
     (case get_json of
        Inl e \<Rightarrow> (st, Inl e)
      | Inr data \<Rightarrow>
          (case subscript data ''books'' of
             Inl e \<Rightarrow> (st, Inl e)
           | Inr books_data \<Rightarrow>
               (case len_then_iterate books_data of
                  Inl e \<Rightarrow> (st, Inl e)
                | Inr elems \<Rightarrow>
                    (case bulk_loop ord 0 elems [] [] of
                       Inl e \<Rightarrow> (st, Inl e)
                     | Inr (errors, new_books) \<Rightarrow>
                         if errors \<noteq> []
                         then (st, Inr (JObj [(''status'', JStr ''error''),
                                              (''message'', JStr ''Validation errors occurred''),
                                              (''errors'', JList errors)],
                                        400))
                         else (st\<lparr>rows := bulk_save_objects (rows st) new_books\<rparr>,
                               Inr (JObj [(''status'', JStr ''success''),
                                          (''message'',
                                             JStr (''Successfully created '' @
                                                   str_nat (length new_books) @ '' books'')),
                                          (''data'', dump_many new_books)],
                                    201))))))"

definition BulkBookOperations_post ::
  "set_order \<Rightarrow> app_state \<Rightarrow> exn + json \<Rightarrow> app_state \<times> (raised + response)" where
  "BulkBookOperations_post ord st get_json =
     except_Exception (BulkBookOperations_post_body ord st get_json)"

text \<open>The bulk delete. What the store makes of
  \<^verbatim>\<open>Book.query.filter(Book.id.in_(book_ids)).delete(...)\<close> for an arbitrary JSON value
  \<^verbatim>\<open>book_ids\<close> is the parameter \<open>delete_in\<close>: the number of rows deleted and the new
  table, or the exception of the SQL layer.\<close>

type_synonym delete_in = "json \<Rightarrow> Book list \<Rightarrow> exn + (nat \<times> Book list)"

definition BulkBookOperations_delete_body ::
  "delete_in \<Rightarrow> app_state \<Rightarrow> exn + json \<Rightarrow> app_state \<times> (exn + response)" where
  "BulkBookOperations_delete_body delete_in st get_json =
     (case get_json of
        Inl e \<Rightarrow> (st, Inl e)
      | Inr data \<Rightarrow>
          (case dict_get data ''ids'' of
             Inl e \<Rightarrow> (st, Inl e)
           | Inr found \<Rightarrow>
               (let book_ids = (case found of None \<Rightarrow> JList [] | Some v \<Rightarrow> v) in
                if \<not> truthy book_ids then (st, Inl (ValidationError_init ''No book IDs provided''))
                else
                  (case delete_in book_ids (rows st) of
                     Inl e \<Rightarrow> (st, Inl e)
                   | Inr (deleted_count, rows1) \<Rightarrow>
                       (st\<lparr>rows := rows1\<rparr>,
                        Inr (JObj [(''status'', JStr ''success''),
                                   (''message'',
                                      JStr (''Successfully deleted '' @ str_nat deleted_count @
                                            '' books''))],
                             200))))))"

definition BulkBookOperations_delete ::
  "delete_in \<Rightarrow> app_state \<Rightarrow> exn + json \<Rightarrow> app_state \<times> (raised + response)" where
  "BulkBookOperations_delete delete_in st get_json =
     except_Exception (BulkBookOperations_delete_body delete_in st get_json)"

subsection \<open>The application: routing and error translation\<close>

datatype request =
    GET_books list_request
  | POST_books "exn + json"
  | GET_book int
  | PUT_book int "exn + json"
  | DELETE_book int
  | POST_books_bulk "exn + json"
  | DELETE_books_bulk "exn + json"

text \<open>What the handlers take from their surroundings: the digest of the list cache key,
  the store's bulk deletion, the iteration order of sets, and whether the application
  propagates exceptions (\<^verbatim>\<open>DEBUG\<close> or \<^verbatim>\<open>TESTING\<close> is on).\<close>

record env =
  hash_method :: "(string \<times> string) list \<Rightarrow> string"
  delete_in :: delete_in
  set_order :: set_order
  propagate_exceptions :: bool

definition dispatch :: "env \<Rightarrow> nat \<Rightarrow> app_state \<Rightarrow> request \<Rightarrow> app_state \<times> (raised + response)" where
  "dispatch env now st req =
     (case req of
        GET_books lr \<Rightarrow> BookList_get (hash_method env) now st lr
      | POST_books body \<Rightarrow> BookList_post (set_order env) st body
      | GET_book book_id \<Rightarrow> BookResource_get now st book_id
      | PUT_book book_id body \<Rightarrow> BookResource_put (set_order env) st book_id body
      | DELETE_book book_id \<Rightarrow> BookResource_delete st book_id
      | POST_books_bulk body \<Rightarrow> BulkBookOperations_post (set_order env) st body
      | DELETE_books_bulk body \<Rightarrow> BulkBookOperations_delete (delete_in env) st body)"

text \<open>The answer of flask-restx to an exception for which the \<^verbatim>\<open>Api\<close> has no handler
  of its own, when the application does not propagate exceptions.\<close>

definition internal_server_error :: response where
  "internal_server_error = (JObj [(''message'', JStr ''Internal Server Error'')], 500)"

text \<open>A request served: the handler's return value, or the answer to the
  \<^verbatim>\<open>ValidationError\<close> that left it. The error router of flask-restx re-raises the
  exception to Flask, which calls \<^verbatim>\<open>handle_validation_error\<close>, only when the
  application propagates exceptions.\<close>

definition serve :: "env \<Rightarrow> nat \<Rightarrow> app_state \<Rightarrow> request \<Rightarrow> app_state \<times> response" where
  "serve env now st req =
     (case dispatch env now st req of
        (st1, Inl e) \<Rightarrow>
          (st1, if propagate_exceptions env then handle_validation_error e
                else internal_server_error)
      | (st1, Inr resp) \<Rightarrow> (st1, resp))"

subsection \<open>Notions used in the properties\<close>


text \<open>A member of a JSON object.\<close>

definition json_field :: "json \<Rightarrow> string \<Rightarrow> json option" where
  "json_field v key = (case v of JObj kvs \<Rightarrow> map_of kvs key | _ \<Rightarrow> None)"





text \<open>Data of the examples: a row, a stand-in for the digest of the list cache key, a
  store whose bulk deletion matches no row, and surroundings made of them in which sets
  iterate in the order given.\<close>

definition example_book :: "int \<Rightarrow> string \<Rightarrow> Book" where
  "example_book i t =
     \<lparr>id_field = Some i, title = t, author = ''A'', published_date = None, summary = None\<rparr>"

definition example_digest :: "(string \<times> string) list \<Rightarrow> string" where
  "example_digest args = concat (map (\<lambda>(k, v). k @ ''='' @ v @ ''&'') args)"

definition example_delete_in :: delete_in where
  "example_delete_in book_ids rs = Inr (0, rs)"

definition example_env :: "bool \<Rightarrow> env" where
  "example_env p =
     \<lparr>hash_method = example_digest, delete_in = example_delete_in, set_order = (\<lambda>ks. ks),
      propagate_exceptions = p\<rparr>"

section \<open>Properties\<close>

subsection \<open>The schema\<close>

lemma Str_field_ok_required:
  "Str_field True vs v = [] \<longleftrightarrow> (\<exists>s. v = Some (JStr s) \<and> vs s = [])"
  by (cases "(True, vs, v)" rule: Str_field.cases) auto

lemma Str_field_ok_optional:
  "Str_field False vs v = [] \<longleftrightarrow> v = None \<or> (\<exists>s. v = Some (JStr s) \<and> vs s = [])"
  by (cases "(False, vs, v)" rule: Str_field.cases) auto

lemma Length_ok: "Length mn mx s = [] \<longleftrightarrow> mn \<le> length s \<and> length s \<le> mx"
  by (auto simp: Length_def)

lemma field_errors_ok:
  "field_errors kvs = [] \<longleftrightarrow>
     (\<exists>t. map_of kvs ''title'' = Some (JStr t) \<and> 1 \<le> length t \<and> length t \<le> 100) \<and>
     (\<exists>a. map_of kvs ''author'' = Some (JStr a) \<and> 1 \<le> length a \<and> length a \<le> 100) \<and>
     (map_of kvs ''published_date'' = None \<or>
        (\<exists>d. map_of kvs ''published_date'' = Some (JStr d) \<and> date_regex_match d)) \<and>
     (map_of kvs ''summary'' = None \<or> (\<exists>s. map_of kvs ''summary'' = Some (JStr s)))"
  by (auto simp add: field_errors_def load_fields_def Str_field_ok_required Str_field_ok_optional
      Length_ok Regexp_date_def no_validator_def)

lemma set_iteration_set: "set (set_iteration ord ks) = set ks"
  by (simp add: set_iteration_def)

lemma set_iteration_length: "length (set_iteration ord ks) = length ks"
  by (simp add: set_iteration_def)

lemma set_iteration_Nil: "set_iteration ord ks = [] \<longleftrightarrow> ks = []"
  using set_iteration_length [of ord ks] by (metis length_0_conv)

lemma set_iteration_empty: "set_iteration ord [] = []"
  by (simp add: set_iteration_Nil)

lemma unknown_errors_ok:
  "unknown_errors ord kvs = [] \<longleftrightarrow> set (map fst kvs) \<subseteq> set field_names"
  by (auto simp: unknown_errors_def set_iteration_Nil filter_empty_conv)

lemma validate_ok:
  "validate ord data = [] \<longleftrightarrow>
     (\<exists>kvs. data = JObj kvs \<and> field_errors kvs = [] \<and> unknown_errors ord kvs = [])"
  by (cases data) (auto simp: validate_def)

lemma unknown_reported:
  "k \<in> set (map fst kvs) \<Longrightarrow> k \<notin> set field_names
     \<Longrightarrow> (k, [''Unknown field.'']) \<in> set (validate ord (JObj kvs))"
  by (auto simp: validate_def unknown_errors_def set_iteration_set)

lemma validate_msgs:
  "(k, ms) \<in> set (validate ord data) \<Longrightarrow> ms \<noteq> []"
  by (cases data) (auto simp: validate_def field_errors_def unknown_errors_def)

subsection \<open>The store and the bulk loop\<close>

lemma fold_max_ge: "(a::int) \<le> fold max xs a \<and> (\<forall>x\<in>set xs. x \<le> fold max xs a)"
proof (induction xs arbitrary: a)
  case Nil
  then show ?case by simp
next
  case (Cons y ys)
  have "max y a \<le> fold max ys (max y a)" and "\<forall>x\<in>set ys. x \<le> fold max ys (max y a)"
    using Cons.IH [of "max y a"] by simp_all
  then show ?case by auto
qed

lemma set_ids: "set (ids rs) = {i. Some i \<in> id_field ` set rs}"
proof (induction rs)
  case Nil
  then show ?case by (simp add: ids_def List.map_filter_def)
next
  case (Cons b bs)
  then show ?case by (cases "id_field b") (auto simp: ids_def List.map_filter_def)
qed

lemma new_id_fresh: "Some (new_id rs) \<notin> id_field ` set rs"
proof
  assume "Some (new_id rs) \<in> id_field ` set rs"
  then have "new_id rs \<in> set (ids rs)" by (simp add: set_ids)
  then have "new_id rs \<le> fold max (ids rs) 0" using fold_max_ge by blast
  then show False by (simp add: new_id_def)
qed

lemma bulk_save_objects_append:
  "\<exists>new. bulk_save_objects rs bs = rs @ new \<and> length new = length bs \<and>
     (\<forall>i<length bs. \<exists>n. new ! i = (bs ! i)\<lparr>id_field := Some n\<rparr> \<and> Some n \<notin> id_field ` set rs)"
proof (induction bs arbitrary: rs)
  case Nil
  then show ?case by simp
next
  case (Cons b bs)
  let ?b = "b\<lparr>id_field := Some (new_id rs)\<rparr>"
  obtain new where new: "bulk_save_objects (rs @ [?b]) bs = (rs @ [?b]) @ new" "length new = length bs"
      "\<forall>i<length bs. \<exists>n. new ! i = (bs ! i)\<lparr>id_field := Some n\<rparr> \<and>
          Some n \<notin> id_field ` set (rs @ [?b])"
    using Cons.IH by blast
  let ?new = "?b # new"
  have "bulk_save_objects rs (b # bs) = rs @ ?new" using new(1) by simp
  moreover have "length ?new = length (b # bs)" using new(2) by simp
  moreover have "\<forall>i<length (b # bs). \<exists>n. ?new ! i = ((b # bs) ! i)\<lparr>id_field := Some n\<rparr> \<and>
      Some n \<notin> id_field ` set rs"
  proof (intro allI impI)
    fix i assume i: "i < length (b # bs)"
    show "\<exists>n. ?new ! i = ((b # bs) ! i)\<lparr>id_field := Some n\<rparr> \<and> Some n \<notin> id_field ` set rs"
    proof (cases i)
      case 0
      then show ?thesis using new_id_fresh [of rs] by (intro exI [of _ "new_id rs"]) simp
    next
      case (Suc j)
      then have "j < length bs" using i by simp
      then obtain n where "new ! j = (bs ! j)\<lparr>id_field := Some n\<rparr>"
          "Some n \<notin> id_field ` set (rs @ [?b])"
        using new(3) by blast
      then show ?thesis using Suc by auto
    qed
  qed
  ultimately show ?case by blast
qed

lemma new_Book_valid:
  assumes "validate ord data = []"
  shows "\<exists>kvs b. data = JObj kvs \<and> new_Book data = Inr b \<and> id_field b = None \<and>
           map_of kvs ''title'' = Some (JStr (title b)) \<and>
           map_of kvs ''author'' = Some (JStr (author b)) \<and>
           map_of kvs ''published_date'' = map_option JStr (published_date b) \<and>
           map_of kvs ''summary'' = map_option JStr (summary b)"
proof -
  obtain kvs where d: "data = JObj kvs" and fe: "field_errors kvs = []"
    using assms validate_ok by blast
  obtain t a where ta: "map_of kvs ''title'' = Some (JStr t)" "map_of kvs ''author'' = Some (JStr a)"
    and pd: "map_of kvs ''published_date'' = None \<or>
        (\<exists>d. map_of kvs ''published_date'' = Some (JStr d))"
    and sm: "map_of kvs ''summary'' = None \<or> (\<exists>s. map_of kvs ''summary'' = Some (JStr s))"
    using fe field_errors_ok by blast
  let ?b = "\<lparr>id_field = None, title = t, author = a,
              published_date = map_option str_value (map_of kvs ''published_date''),
              summary = map_option str_value (map_of kvs ''summary'')\<rparr>"
  have "new_Book data = Inr ?b" using d ta by (simp add: new_Book_def)
  moreover have "map_of kvs ''published_date'' = map_option JStr (published_date ?b)"
    using pd by auto
  moreover have "map_of kvs ''summary'' = map_option JStr (summary ?b)"
    using sm by auto
  ultimately show ?thesis using d ta by (intro exI [of _ kvs] exI [of _ ?b]) simp
qed

lemma bulk_loop_eq:
  "bulk_loop ord idx elems errs books =
     Inr (errs @ map (\<lambda>(i, item). item_error i (validate ord item))
                   (filter (\<lambda>(i, item). validate ord item \<noteq> []) (enumerate idx elems)),
          books @ map (\<lambda>item. projr (new_Book item))
                    (filter (\<lambda>item. validate ord item = []) elems))"
proof (induction elems arbitrary: idx errs books)
  case Nil
  then show ?case by simp
next
  case (Cons item rest)
  show ?case
  proof (cases "validate ord item = []")
    case True
    then obtain b where "new_Book item = Inr b" using new_Book_valid by blast
    then show ?thesis using True Cons.IH by simp
  next
    case False
    then show ?thesis using Cons.IH by simp
  qed
qed

subsection \<open>LIKE patterns without wildcards\<close>
















subsection \<open>Pagination\<close>









subsection \<open>Search\<close>







subsection \<open>Error responses\<close>
















subsection \<open>Bulk create\<close>








subsection \<open>Primary keys in the responses of a create\<close>

lemma json_field_dump_id: "json_field (dump b) ''id'' = Some (case id_field b of None \<Rightarrow> JNull | Some i \<Rightarrow> JInt i)"
  by (simp add: json_field_def dump_def)

lemma new_Books_valid:
  assumes "\<forall>item\<in>set elems. validate ord item = []"
  shows "\<forall>b\<in>set (map (\<lambda>item. projr (new_Book item)) elems). id_field b = None"
proof -
  have "id_field (projr (new_Book item)) = None" if "item \<in> set elems" for item
  proof -
    have "validate ord item = []" using assms that by blast
    then obtain b where "new_Book item = Inr b" "id_field b = None"
      using new_Book_valid [of ord item] by auto
    then show ?thesis by simp
  qed
  then show ?thesis by auto
qed

lemma bulk_post_201:
  assumes "BulkBookOperations_post ord st b = (st1, Inr (body, 201))"
  shows "\<exists>new_books.
           (\<forall>x\<in>set new_books. id_field x = None) \<and>
           json_field body ''data'' = Some (JList (map dump new_books)) \<and>
           rows st1 = bulk_save_objects (rows st) new_books"
proof -
  obtain data books_data elems new_books where
      "b = Inr data" "subscript data ''books'' = Inr books_data"
      "len_then_iterate books_data = Inr elems"
      and loop: "bulk_loop ord 0 elems [] [] = Inr ([], new_books)"
      and res: "body = JObj [(''status'', JStr ''success''),
                      (''message'', JStr (''Successfully created '' @ str_nat (length new_books) @ '' books'')),
                      (''data'', dump_many new_books)]"
               "st1 = st\<lparr>rows := bulk_save_objects (rows st) new_books\<rparr>"
    using assms
    by (auto simp: BulkBookOperations_post_def BulkBookOperations_post_body_def except_Exception_def
          split: sum.splits prod.splits if_splits)
  have "new_books = map (\<lambda>item. projr (new_Book item)) (filter (\<lambda>item. validate ord item = []) elems)"
    using loop by (simp add: bulk_loop_eq)
  then have "\<forall>x\<in>set new_books. id_field x = None"
    using new_Books_valid [of "filter (\<lambda>item. validate ord item = []) elems" ord] by simp
  then show ?thesis using res by (auto simp: json_field_def dump_many_def)
qed

lemma single_post_201:
  assumes "BookList_post ord st b = (st2, Inr (body2, 201))"
  shows "\<exists>new_book.
           id_field new_book = None \<and>
           rows st2 = rows st @ [new_book\<lparr>id_field := Some (new_id (rows st))\<rparr>] \<and>
           json_field body2 ''data'' = Some (dump (new_book\<lparr>id_field := Some (new_id (rows st))\<rparr>))"
proof -
  obtain data new_book where
      "b = Inr data" and v: "validate ord data = []" and nb: "new_Book data = Inr new_book"
      and res: "body2 = JObj [(''status'', JStr ''success''),
                      (''message'', JStr ''Book created successfully''),
                      (''data'', dump (new_book\<lparr>id_field := Some (new_id (rows st))\<rparr>))]"
               "st2 = st\<lparr>rows := rows st @ [new_book\<lparr>id_field := Some (new_id (rows st))\<rparr>]\<rparr>"
    using assms
    by (auto simp: BookList_post_def BookList_post_body_def except_Exception_def session_add_commit_def
          Let_def split: sum.splits prod.splits if_splits)
  have "id_field new_book = None" using new_Book_valid [OF v] nb by auto
  then show ?thesis using res by (auto simp: json_field_def)
qed

text \<open>Claim C10. In the 201 response of a bulk create every item of \<^verbatim>\<open>data\<close> has the
  id \<^verbatim>\<open>null\<close>, although each row written has a primary key; in the 201 response of a
  single create the id in \<^verbatim>\<open>data\<close> is the primary key of the one row written, a key
  no earlier row has.\<close>

theorem C10_ids_in_create_responses:
  "(BulkBookOperations_post ord st b = (st1, Inr (body, 201)) \<longrightarrow>
      (\<exists>ds new. json_field body ''data'' = Some (JList ds) \<and>
         (\<forall>d\<in>set ds. json_field d ''id'' = Some JNull) \<and>
         rows st1 = rows st @ new \<and> length new = length ds \<and>
         (\<forall>r\<in>set new. id_field r \<noteq> None))) \<and>
   (BookList_post ord st b2 = (st2, Inr (body2, 201)) \<longrightarrow>
      (\<exists>d new. json_field body2 ''data'' = Some d \<and>
         json_field d ''id'' = Some (JInt (new_id (rows st))) \<and>
         rows st2 = rows st @ [new] \<and> id_field new = Some (new_id (rows st)) \<and>
         Some (new_id (rows st)) \<notin> id_field ` set (rows st)))"
proof (intro conjI impI)
  assume "BulkBookOperations_post ord st b = (st1, Inr (body, 201))"
  then obtain new_books where nb: "\<forall>x\<in>set new_books. id_field x = None"
      "json_field body ''data'' = Some (JList (map dump new_books))"
      "rows st1 = bulk_save_objects (rows st) new_books"
    using bulk_post_201 by blast
  obtain new where new: "bulk_save_objects (rows st) new_books = rows st @ new"
      "length new = length new_books"
      "\<forall>i<length new_books. \<exists>n. new ! i = (new_books ! i)\<lparr>id_field := Some n\<rparr>"
    using bulk_save_objects_append [of "rows st" new_books] by blast
  have "\<forall>d\<in>set (map dump new_books). json_field d ''id'' = Some JNull"
    using nb(1) by (auto simp: json_field_dump_id)
  moreover have "\<forall>r\<in>set new. id_field r \<noteq> None"
  proof
    fix r assume "r \<in> set new"
    then obtain i where "i < length new" "new ! i = r" by (auto simp: in_set_conv_nth)
    then show "id_field r \<noteq> None" using new(2,3) by auto
  qed
  ultimately show "\<exists>ds new. json_field body ''data'' = Some (JList ds) \<and>
         (\<forall>d\<in>set ds. json_field d ''id'' = Some JNull) \<and>
         rows st1 = rows st @ new \<and> length new = length ds \<and>
         (\<forall>r\<in>set new. id_field r \<noteq> None)"
    using nb(2,3) new(1,2) by (intro exI [of _ "map dump new_books"] exI [of _ new]) simp
next
  assume "BookList_post ord st b2 = (st2, Inr (body2, 201))"
  then obtain new_book where nb: "id_field new_book = None"
      "rows st2 = rows st @ [new_book\<lparr>id_field := Some (new_id (rows st))\<rparr>]"
      "json_field body2 ''data'' = Some (dump (new_book\<lparr>id_field := Some (new_id (rows st))\<rparr>))"
    using single_post_201 by blast
  show "\<exists>d new. json_field body2 ''data'' = Some d \<and>
         json_field d ''id'' = Some (JInt (new_id (rows st))) \<and>
         rows st2 = rows st @ [new] \<and> id_field new = Some (new_id (rows st)) \<and>
         Some (new_id (rows st)) \<notin> id_field ` set (rows st)"
    using nb(2,3) new_id_fresh [of "rows st"]
    by (intro exI [of _ "dump (new_book\<lparr>id_field := Some (new_id (rows st))\<rparr>)"]
              exI [of _ "new_book\<lparr>id_field := Some (new_id (rows st))\<rparr>"])
       (simp add: json_field_dump_id)
qed

theorem C10_ids_in_create_responses_witness:
  "BulkBookOperations_post (\<lambda>ks. ks) \<lparr>rows = [example_book 1 ''Old''], cache = []\<rparr>
     (Inr (JObj [(''books'', JList [JObj [(''title'', JStr ''T''), (''author'', JStr ''A'')]])])) =
     (\<lparr>rows = [example_book 1 ''Old'', example_book 2 ''T''], cache = []\<rparr>,
      Inr (JObj [(''status'', JStr ''success''),
                 (''message'', JStr ''Successfully created 1 books''),
                 (''data'', JList [JObj [(''id'', JNull), (''title'', JStr ''T''), (''author'', JStr ''A''),
                                         (''published_date'', JNull), (''summary'', JNull)]])],
           201)) \<and>
   BookList_post (\<lambda>ks. ks) \<lparr>rows = [example_book 1 ''Old''], cache = []\<rparr>
     (Inr (JObj [(''title'', JStr ''T''), (''author'', JStr ''A'')])) =
     (\<lparr>rows = [example_book 1 ''Old'', example_book 2 ''T''], cache = []\<rparr>,
      Inr (JObj [(''status'', JStr ''success''),
                 (''message'', JStr ''Book created successfully''),
                 (''data'', JObj [(''id'', JInt 2), (''title'', JStr ''T''), (''author'', JStr ''A''),
                                  (''published_date'', JNull), (''summary'', JNull)])],
           201)) \<and>
   Some (new_id [example_book 1 ''Old'']) \<notin> id_field ` set [example_book 1 ''Old'']"
proof -
  let ?st = "\<lparr>rows = [example_book 1 ''Old''], cache = []\<rparr>"
  have a: "BulkBookOperations_post (\<lambda>ks. ks) ?st
     (Inr (JObj [(''books'', JList [JObj [(''title'', JStr ''T''), (''author'', JStr ''A'')]])])) =
     (\<lparr>rows = [example_book 1 ''Old'', example_book 2 ''T''], cache = []\<rparr>,
      Inr (JObj [(''status'', JStr ''success''),
                 (''message'', JStr ''Successfully created 1 books''),
                 (''data'', JList [JObj [(''id'', JNull), (''title'', JStr ''T''), (''author'', JStr ''A''),
                                         (''published_date'', JNull), (''summary'', JNull)]])],
           201))"
    by code_simp
  have b: "BookList_post (\<lambda>ks. ks) ?st (Inr (JObj [(''title'', JStr ''T''), (''author'', JStr ''A'')])) =
     (\<lparr>rows = [example_book 1 ''Old'', example_book 2 ''T''], cache = []\<rparr>,
      Inr (JObj [(''status'', JStr ''success''),
                 (''message'', JStr ''Book created successfully''),
                 (''data'', JObj [(''id'', JInt 2), (''title'', JStr ''T''), (''author'', JStr ''A''),
                                  (''published_date'', JNull), (''summary'', JNull)])],
           201))"
    by code_simp
  have fresh: "Some (new_id [example_book 1 ''Old'']) \<notin> id_field ` set [example_book 1 ''Old'']"
    using b
      C10_ids_in_create_responses
        [where ord = "\<lambda>ks. ks" and st = ?st
           and b = "Inr (JObj [(''books'', JList [JObj [(''title'', JStr ''T''), (''author'', JStr ''A'')]])])"
           and ?st1.0 = "\<lparr>rows = [example_book 1 ''Old'', example_book 2 ''T''], cache = []\<rparr>"
           and body = "JObj [(''status'', JStr ''success''),
                 (''message'', JStr ''Successfully created 1 books''),
                 (''data'', JList [JObj [(''id'', JNull), (''title'', JStr ''T''), (''author'', JStr ''A''),
                                         (''published_date'', JNull), (''summary'', JNull)]])]"
           and ?b2.0 = "Inr (JObj [(''title'', JStr ''T''), (''author'', JStr ''A'')])"
           and ?st2.0 = "\<lparr>rows = [example_book 1 ''Old'', example_book 2 ''T''], cache = []\<rparr>"
           and ?body2.0 = "JObj [(''status'', JStr ''success''),
                 (''message'', JStr ''Book created successfully''),
                 (''data'', JObj [(''id'', JInt 2), (''title'', JStr ''T''), (''author'', JStr ''A''),
                                  (''published_date'', JNull), (''summary'', JNull)])]"]
    by auto
  show ?thesis using a b fresh by simp
qed

subsection \<open>Unknown fields\<close>

lemma field_errors_keys:
  assumes "(k, ms) \<in> set (field_errors kvs)"
  shows "k \<in> set field_names"
proof -
  have "(k, ms) \<in> set (map (\<lambda>(name, required, validators).
            (name, Str_field required validators (map_of kvs name))) load_fields)"
    using assms unfolding field_errors_def set_filter by blast
  then show ?thesis by (auto simp: load_fields_def field_names_def)
qed

lemma validate_keys:
  assumes "(k, ms) \<in> set (validate ord data)"
  shows "k = ''_schema'' \<or> k \<in> set field_names \<or> (\<exists>kvs. data = JObj kvs \<and> k \<in> set (map fst kvs))"
proof (cases data)
  case (JObj kvs)
  then have "(k, ms) \<in> set (field_errors kvs) \<or> (k, ms) \<in> set (unknown_errors ord kvs)"
    using assms by (simp add: validate_def)
  then show ?thesis
  proof
    assume "(k, ms) \<in> set (field_errors kvs)"
    then show ?thesis using field_errors_keys by blast
  next
    assume "(k, ms) \<in> set (unknown_errors ord kvs)"
    then have "k \<in> set (map fst kvs)" by (auto simp: unknown_errors_def set_iteration_set)
    then show ?thesis using JObj by blast
  qed
qed (use assms in \<open>auto simp: validate_def\<close>)

lemma create_rejected:
  assumes "validate ord data \<noteq> []"
  shows "BookList_post ord st (Inr data) = (st, Inl (py_str_errors (validate ord data), 400))"
  using assms
  by (simp add: BookList_post_def BookList_post_body_def except_Exception_def ValidationError_init_def
      Let_def)

text \<open>Claim C9, as amended. \<^const>\<open>validate\<close> is a total function. It returns no error
  exactly for an object with a title and an author of 1 to 100 characters, optionally a
  date of the form \<^verbatim>\<open>NNNN-NN-NN\<close> and a summary, each a string, and no other key;
  every entry it returns has a message and is filed under a field, a key of the payload
  or \<^verbatim>\<open>_schema\<close>. An unknown key is not ignored: it is reported as
  \<^verbatim>\<open>Unknown field.\<close>, and a create with such a payload writes nothing: the handler
  raises a \<^verbatim>\<open>ValidationError\<close> with the printed errors and the status 400, answered
  with the envelope when the application propagates exceptions and with the 500 of
  flask-restx when it does not.\<close>

theorem C9_validate_reports_unknown_fields:
  "(validate ord data = [] \<longleftrightarrow>
      (\<exists>kvs. data = JObj kvs \<and>
         (\<exists>t. map_of kvs ''title'' = Some (JStr t) \<and> 1 \<le> length t \<and> length t \<le> 100) \<and>
         (\<exists>a. map_of kvs ''author'' = Some (JStr a) \<and> 1 \<le> length a \<and> length a \<le> 100) \<and>
         (map_of kvs ''published_date'' = None \<or>
            (\<exists>d. map_of kvs ''published_date'' = Some (JStr d) \<and> date_regex_match d)) \<and>
         (map_of kvs ''summary'' = None \<or> (\<exists>s. map_of kvs ''summary'' = Some (JStr s))) \<and>
         set (map fst kvs) \<subseteq> set field_names)) \<and>
   (\<forall>(k, ms)\<in>set (validate ord data).
      ms \<noteq> [] \<and>
      (k = ''_schema'' \<or> k \<in> set field_names \<or> (\<exists>kvs. data = JObj kvs \<and> k \<in> set (map fst kvs)))) \<and>
   (\<forall>kvs k. data = JObj kvs \<and> k \<in> set (map fst kvs) \<and> k \<notin> set field_names \<longrightarrow>
      (k, [''Unknown field.'']) \<in> set (validate ord data) \<and>
      BookList_post ord st (Inr data) = (st, Inl (py_str_errors (validate ord data), 400)) \<and>
      (\<forall>env. set_order env = ord \<longrightarrow>
         serve env now st (POST_books (Inr data)) =
           (st, if propagate_exceptions env
                then (JObj [(''error'', JStr (py_str_errors (validate ord data)))], 400)
                else (JObj [(''message'', JStr ''Internal Server Error'')], 500))))"
proof (intro conjI)
  show "validate ord data = [] \<longleftrightarrow>
      (\<exists>kvs. data = JObj kvs \<and>
         (\<exists>t. map_of kvs ''title'' = Some (JStr t) \<and> 1 \<le> length t \<and> length t \<le> 100) \<and>
         (\<exists>a. map_of kvs ''author'' = Some (JStr a) \<and> 1 \<le> length a \<and> length a \<le> 100) \<and>
         (map_of kvs ''published_date'' = None \<or>
            (\<exists>d. map_of kvs ''published_date'' = Some (JStr d) \<and> date_regex_match d)) \<and>
         (map_of kvs ''summary'' = None \<or> (\<exists>s. map_of kvs ''summary'' = Some (JStr s))) \<and>
         set (map fst kvs) \<subseteq> set field_names)"
    unfolding validate_ok field_errors_ok unknown_errors_ok by blast
  show "\<forall>(k, ms)\<in>set (validate ord data).
      ms \<noteq> [] \<and>
      (k = ''_schema'' \<or> k \<in> set field_names \<or> (\<exists>kvs. data = JObj kvs \<and> k \<in> set (map fst kvs)))"
    using validate_msgs validate_keys by fastforce
  show "\<forall>kvs k. data = JObj kvs \<and> k \<in> set (map fst kvs) \<and> k \<notin> set field_names \<longrightarrow>
      (k, [''Unknown field.'']) \<in> set (validate ord data) \<and>
      BookList_post ord st (Inr data) = (st, Inl (py_str_errors (validate ord data), 400)) \<and>
      (\<forall>env. set_order env = ord \<longrightarrow>
         serve env now st (POST_books (Inr data)) =
           (st, if propagate_exceptions env
                then (JObj [(''error'', JStr (py_str_errors (validate ord data)))], 400)
                else (JObj [(''message'', JStr ''Internal Server Error'')], 500)))"
  proof (intro allI impI)
    fix kvs k
    assume a: "data = JObj kvs \<and> k \<in> set (map fst kvs) \<and> k \<notin> set field_names"
    then have m: "(k, [''Unknown field.'']) \<in> set (validate ord data)"
      using unknown_reported by blast
    then have "validate ord data \<noteq> []" by auto
    then have r: "BookList_post ord st (Inr data) = (st, Inl (py_str_errors (validate ord data), 400))"
      by (rule create_rejected)
    have "serve env now st (POST_books (Inr data)) =
           (st, if propagate_exceptions env
                then (JObj [(''error'', JStr (py_str_errors (validate ord data)))], 400)
                else (JObj [(''message'', JStr ''Internal Server Error'')], 500))"
      if "set_order env = ord" for env
      using that r
      by (simp add: serve_def dispatch_def handle_validation_error_def internal_server_error_def)
    then show "(k, [''Unknown field.'']) \<in> set (validate ord data) \<and>
      BookList_post ord st (Inr data) = (st, Inl (py_str_errors (validate ord data), 400)) \<and>
      (\<forall>env. set_order env = ord \<longrightarrow>
         serve env now st (POST_books (Inr data)) =
           (st, if propagate_exceptions env
                then (JObj [(''error'', JStr (py_str_errors (validate ord data)))], 400)
                else (JObj [(''message'', JStr ''Internal Server Error'')], 500)))"
      using m r by blast
  qed
qed

theorem C9_counterexample:
  "validate (\<lambda>ks. ks) (JObj [(''title'', JStr ''T''), (''author'', JStr ''A''), (''extra'', JInt 1)]) =
     [(''extra'', [''Unknown field.''])] \<and>
   serve (example_env True) 0 \<lparr>rows = [], cache = []\<rparr>
     (POST_books (Inr (JObj [(''title'', JStr ''T''), (''author'', JStr ''A''), (''extra'', JInt 1)]))) =
     (\<lparr>rows = [], cache = []\<rparr>,
      JObj [(''error'',
             JStr (''{'' @ [CHR 0x27] @ ''extra'' @ [CHR 0x27] @ '': ['' @ [CHR 0x27] @
                   ''Unknown field.'' @ [CHR 0x27] @ '']}''))],
      400)"
  by code_simp

theorem C9_validate_reports_unknown_fields_witness:
  "''id'' \<in> set (map fst [(''id'', JInt 5), (''title'', JStr ''T''), (''author'', JStr ''A''),
                            (''isbn'', JStr ''x'')]) \<and>
   ''id'' \<notin> set field_names \<and>
   set_order ((example_env False)\<lparr>set_order := rev\<rparr>) = rev \<and>
   validate rev (JObj [(''id'', JInt 5), (''title'', JStr ''T''), (''author'', JStr ''A''),
                       (''isbn'', JStr ''x'')]) =
     [(''isbn'', [''Unknown field.'']), (''id'', [''Unknown field.''])] \<and>
   BookList_post rev \<lparr>rows = [], cache = []\<rparr>
     (Inr (JObj [(''id'', JInt 5), (''title'', JStr ''T''), (''author'', JStr ''A''),
                 (''isbn'', JStr ''x'')])) =
     (\<lparr>rows = [], cache = []\<rparr>,
      Inl (''{'' @ [CHR 0x27] @ ''isbn'' @ [CHR 0x27] @ '': ['' @ [CHR 0x27] @
           ''Unknown field.'' @ [CHR 0x27] @ ''], '' @ [CHR 0x27] @ ''id'' @ [CHR 0x27] @ '': ['' @
           [CHR 0x27] @ ''Unknown field.'' @ [CHR 0x27] @ '']}'', 400)) \<and>
   serve ((example_env False)\<lparr>set_order := rev\<rparr>) 0 \<lparr>rows = [], cache = []\<rparr>
     (POST_books (Inr (JObj [(''id'', JInt 5), (''title'', JStr ''T''), (''author'', JStr ''A''),
                             (''isbn'', JStr ''x'')]))) =
     (\<lparr>rows = [], cache = []\<rparr>, JObj [(''message'', JStr ''Internal Server Error'')], 500) \<and>
   validate rev (JList []) = [(''_schema'', [''Invalid input type.''])] \<and>
   validate rev (JObj [(''title'', JNull), (''author'', JInt 3),
                       (''published_date'', JStr ''2024-1-1''), (''summary'', JStr ''S'')]) =
     [(''title'', [''Field may not be null.'']), (''author'', [''Not a valid string.'']),
      (''published_date'', [''String does not match expected pattern.''])]"
proof -
  let ?kvs = "[(''id'', JInt 5), (''title'', JStr ''T''), (''author'', JStr ''A''), (''isbn'', JStr ''x'')]"
  let ?st = "\<lparr>rows = [], cache = []\<rparr>"
  let ?env = "(example_env False)\<lparr>set_order := rev\<rparr>"
  have h: "''id'' \<in> set (map fst ?kvs)" "''id'' \<notin> set field_names" "set_order ?env = rev"
    by (simp_all add: field_names_def example_env_def)
  have v: "validate rev (JObj ?kvs) = [(''isbn'', [''Unknown field.'']), (''id'', [''Unknown field.''])]"
    by code_simp
  have p: "py_str_errors [(''isbn'', [''Unknown field.'']), (''id'', [''Unknown field.''])] =
      ''{'' @ [CHR 0x27] @ ''isbn'' @ [CHR 0x27] @ '': ['' @ [CHR 0x27] @
           ''Unknown field.'' @ [CHR 0x27] @ ''], '' @ [CHR 0x27] @ ''id'' @ [CHR 0x27] @ '': ['' @
           [CHR 0x27] @ ''Unknown field.'' @ [CHR 0x27] @ '']}''"
    by code_simp
  have w1: "validate rev (JList []) = [(''_schema'', [''Invalid input type.''])]"
    by code_simp
  have w2: "validate rev (JObj [(''title'', JNull), (''author'', JInt 3),
                       (''published_date'', JStr ''2024-1-1''), (''summary'', JStr ''S'')]) =
     [(''title'', [''Field may not be null.'']), (''author'', [''Not a valid string.'']),
      (''published_date'', [''String does not match expected pattern.''])]"
    by code_simp
  have pre: "JObj ?kvs = JObj ?kvs \<and> ''id'' \<in> set (map fst ?kvs) \<and> ''id'' \<notin> set field_names"
    by (intro conjI refl h(1) h(2))
  note c = C9_validate_reports_unknown_fields
      [of rev "JObj ?kvs" ?st 0, THEN conjunct2, THEN conjunct2, rule_format, OF pre]
  have r: "BookList_post rev ?st (Inr (JObj ?kvs)) =
      (?st, Inl (''{'' @ [CHR 0x27] @ ''isbn'' @ [CHR 0x27] @ '': ['' @ [CHR 0x27] @
           ''Unknown field.'' @ [CHR 0x27] @ ''], '' @ [CHR 0x27] @ ''id'' @ [CHR 0x27] @ '': ['' @
           [CHR 0x27] @ ''Unknown field.'' @ [CHR 0x27] @ '']}'', 400))"
    using c [THEN conjunct2, THEN conjunct1] unfolding v p .
  have "\<not> propagate_exceptions ?env" by (simp add: example_env_def)
  then have s: "serve ?env 0 ?st (POST_books (Inr (JObj ?kvs))) =
      (?st, JObj [(''message'', JStr ''Internal Server Error'')], 500)"
    using c [THEN conjunct2, THEN conjunct2, rule_format, OF h(3)] by simp
  show ?thesis
    by (intro conjI, rule h(1), rule h(2), rule h(3), rule v, rule r, rule s, rule w1, rule w2)
qed

subsection \<open>Update, and lookups of unknown ids\<close>

lemma get_by_id_Some: "get_by_id rs i = Some b \<Longrightarrow> b \<in> set rs \<and> id_field b = Some i"
  by (auto simp: get_by_id_def find_Some_iff)

text \<open>What the update does with a payload that passes validation, which then holds a
  title and an author: it answers 200, replaces the row of that id by the book with the
  title and the author of the payload, takes the date and the summary from the payload
  where it has them and keeps the stored ones where it has not, and leaves the id as it
  is.\<close>

lemma put_overwrites_supplied_fields:
  assumes "get_by_id (rows st) book_id = Some book" and "- (2 ^ 63) \<le> book_id" and "book_id < 2 ^ 63"
    and "validate ord (JObj kvs) = []"
  shows "\<exists>t a book1.
      map_of kvs ''title'' = Some (JStr t) \<and> map_of kvs ''author'' = Some (JStr a) \<and>
      BookResource_put ord st book_id (Inr (JObj kvs)) =
        (\<lparr>rows = map (\<lambda>b. if id_field b = Some book_id then book1 else b) (rows st),
          cache = cache_delete (cache_delete (cache st) (''book'' @ str_int book_id)) ''books''\<rparr>,
         Inr (JObj [(''status'', JStr ''success''),
                    (''message'', JStr ''Book updated successfully''),
                    (''data'', dump book1)],
              200)) \<and>
      id_field book1 = Some book_id \<and> title book1 = t \<and> author book1 = a \<and>
      (map_of kvs ''published_date'' = None \<longrightarrow> published_date book1 = published_date book) \<and>
      (\<forall>d. map_of kvs ''published_date'' = Some (JStr d) \<longrightarrow> published_date book1 = Some d) \<and>
      (map_of kvs ''summary'' = None \<longrightarrow> summary book1 = summary book) \<and>
      (\<forall>s. map_of kvs ''summary'' = Some (JStr s) \<longrightarrow> summary book1 = Some s)"
proof -
  have fe: "field_errors kvs = []" using assms(4) validate_ok by blast
  obtain t a where ta: "map_of kvs ''title'' = Some (JStr t)" "map_of kvs ''author'' = Some (JStr a)"
    using fe field_errors_ok by blast
  have idb: "id_field book = Some book_id" using get_by_id_Some [OF assms(1)] by blast
  have si: "sqlite_int book_id" using assms(2,3) by (simp add: sqlite_int_def)
  let ?book1 = "book\<lparr>title := get_str kvs ''title'' (title book),
                      author := get_str kvs ''author'' (author book),
                      published_date := get_opt_str kvs ''published_date'' (published_date book),
                      summary := get_opt_str kvs ''summary'' (summary book)\<rparr>"
  have put: "BookResource_put ord st book_id (Inr (JObj kvs)) =
        (\<lparr>rows = map (\<lambda>b. if id_field b = Some book_id then ?book1 else b) (rows st),
          cache = cache_delete (cache_delete (cache st) (''book'' @ str_int book_id)) ''books''\<rparr>,
         Inr (JObj [(''status'', JStr ''success''),
                    (''message'', JStr ''Book updated successfully''),
                    (''data'', dump ?book1)],
              200))"
    using assms(1,4) idb si
    by (simp add: BookResource_put_def BookResource_put_body_def get_or_404_def except_Exception_def
        commit_update_def Let_def)
  have f1: "id_field ?book1 = Some book_id" "title ?book1 = t" "author ?book1 = a"
    using idb ta by (simp_all add: get_str_def)
  have f2: "map_of kvs ''published_date'' = None \<longrightarrow> published_date ?book1 = published_date book"
    "\<forall>d. map_of kvs ''published_date'' = Some (JStr d) \<longrightarrow> published_date ?book1 = Some d"
    "map_of kvs ''summary'' = None \<longrightarrow> summary ?book1 = summary book"
    "\<forall>s. map_of kvs ''summary'' = Some (JStr s) \<longrightarrow> summary ?book1 = Some s"
    by (simp_all add: get_opt_str_def)
  show ?thesis
    by (rule exI [of _ t], rule exI [of _ a], rule exI [of _ ?book1])
       (use ta put f1 f2 in simp)
qed

lemma put_rejected:
  assumes "validate ord data \<noteq> []"
  shows "\<exists>m. BookResource_put ord st book_id (Inr data) = (st, Inl (m, 400))"
  using assms
  by (auto simp: BookResource_put_def BookResource_put_body_def except_Exception_def Let_def
      split: sum.splits)

text \<open>Claim C2 (the code departs from it). The update validates the payload with the schema
  of the create, in which the title and the author are required. So an update whose
  payload lacks the title or the author fails validation and is not carried out,
  whatever the id and the other fields are: the handler raises a
  \<^verbatim>\<open>ValidationError\<close> with the status 400, the state is unchanged, and the answer
  is the envelope with that status when the application propagates exceptions and the
  500 of flask-restx when it does not.\<close>

theorem C2_partial_update_rejected:
  assumes "map_of kvs ''title'' = None \<or> map_of kvs ''author'' = None"
  shows "validate (set_order env) (JObj kvs) \<noteq> [] \<and>
    (\<exists>m. BookResource_put (set_order env) st book_id (Inr (JObj kvs)) = (st, Inl (m, 400)) \<and>
         serve env now st (PUT_book book_id (Inr (JObj kvs))) =
           (st, if propagate_exceptions env then (JObj [(''error'', JStr m)], 400)
                else (JObj [(''message'', JStr ''Internal Server Error'')], 500)))"
proof -
  have "field_errors kvs \<noteq> []" using assms field_errors_ok [of kvs] by auto
  then have v: "validate (set_order env) (JObj kvs) \<noteq> []" by (simp add: validate_def)
  then obtain m where m: "BookResource_put (set_order env) st book_id (Inr (JObj kvs)) = (st, Inl (m, 400))"
    using put_rejected by blast
  then have "serve env now st (PUT_book book_id (Inr (JObj kvs))) =
           (st, if propagate_exceptions env then (JObj [(''error'', JStr m)], 400)
                else (JObj [(''message'', JStr ''Internal Server Error'')], 500))"
    by (simp add: serve_def dispatch_def handle_validation_error_def internal_server_error_def)
  then show ?thesis using v m by blast
qed

theorem C2_partial_update_rejected_witness:
  "map_of [(''author'', JStr ''New'')] ''title'' = None \<and>
   validate (\<lambda>ks. ks) (JObj [(''author'', JStr ''New'')]) =
     [(''title'', [''Missing data for required field.''])] \<and>
   serve (example_env True) 0
     \<lparr>rows = [\<lparr>id_field = Some 1, title = ''Old'', author = ''A'', published_date = None,
                summary = None\<rparr>],
      cache = []\<rparr>
     (PUT_book 1 (Inr (JObj [(''author'', JStr ''New'')]))) =
     (\<lparr>rows = [\<lparr>id_field = Some 1, title = ''Old'', author = ''A'', published_date = None,
                 summary = None\<rparr>],
       cache = []\<rparr>,
      JObj [(''error'',
             JStr (''{'' @ [CHR 0x27] @ ''title'' @ [CHR 0x27] @ '': ['' @ [CHR 0x27] @
                   ''Missing data for required field.'' @ [CHR 0x27] @ '']}''))],
      400)"
proof -
  let ?st = "\<lparr>rows = [\<lparr>id_field = Some 1, title = ''Old'', author = ''A'', published_date = None,
                        summary = None\<rparr>],
              cache = []\<rparr>"
  have h: "map_of [(''author'', JStr ''New'')] ''title'' = None" by simp
  have v: "validate (\<lambda>ks. ks) (JObj [(''author'', JStr ''New'')]) =
     [(''title'', [''Missing data for required field.''])]"
    by code_simp
  have s: "serve (example_env True) 0 ?st (PUT_book 1 (Inr (JObj [(''author'', JStr ''New'')]))) =
     (?st,
      JObj [(''error'',
             JStr (''{'' @ [CHR 0x27] @ ''title'' @ [CHR 0x27] @ '': ['' @ [CHR 0x27] @
                   ''Missing data for required field.'' @ [CHR 0x27] @ '']}''))],
      400)"
    by code_simp
  have "validate (set_order (example_env True)) (JObj [(''author'', JStr ''New'')]) \<noteq> []"
    using C2_partial_update_rejected [OF disjI1, OF h, of "example_env True"] by (rule conjunct1)
  then show ?thesis using h v s by (intro conjI) assumption+
qed

text \<open>Claim C1 (the code departs from it). For an id that no row has, the get, the update
  and the delete handler do not answer 404: \<^verbatim>\<open>get_or_404\<close> raises inside the
  handler's \<^verbatim>\<open>try\<close>, and the \<^verbatim>\<open>except Exception\<close> branch raises a
  \<^verbatim>\<open>ValidationError\<close> with the default status 400 in its place. The answer is 400,
  with the text of the 404 in the envelope, when the application propagates exceptions,
  and the 500 of flask-restx when it does not.\<close>

theorem C1_not_found_is_400:
  "snd (serve (env\<lparr>propagate_exceptions := True\<rparr>) now
          \<lparr>rows = [example_book 1 ''Old''], cache = []\<rparr> (GET_book 7)) =
     (JObj [(''error'', JStr (str_exn NotFound))], 400) \<and>
   snd (serve (env\<lparr>propagate_exceptions := True\<rparr>) now
          \<lparr>rows = [example_book 1 ''Old''], cache = []\<rparr>
          (PUT_book 7 (Inr (JObj [(''title'', JStr ''T''), (''author'', JStr ''A'')])))) =
     (JObj [(''error'', JStr (str_exn NotFound))], 400) \<and>
   snd (serve (env\<lparr>propagate_exceptions := True\<rparr>) now
          \<lparr>rows = [example_book 1 ''Old''], cache = []\<rparr> (DELETE_book 7)) =
     (JObj [(''error'', JStr (str_exn NotFound))], 400) \<and>
   snd (serve (env\<lparr>propagate_exceptions := False\<rparr>) now
          \<lparr>rows = [example_book 1 ''Old''], cache = []\<rparr> (GET_book 7)) =
     (JObj [(''message'', JStr ''Internal Server Error'')], 500) \<and>
   snd (serve (env\<lparr>propagate_exceptions := False\<rparr>) now
          \<lparr>rows = [example_book 1 ''Old''], cache = []\<rparr>
          (PUT_book 7 (Inr (JObj [(''title'', JStr ''T''), (''author'', JStr ''A'')])))) =
     (JObj [(''message'', JStr ''Internal Server Error'')], 500) \<and>
   snd (serve (env\<lparr>propagate_exceptions := False\<rparr>) now
          \<lparr>rows = [example_book 1 ''Old''], cache = []\<rparr> (DELETE_book 7)) =
     (JObj [(''message'', JStr ''Internal Server Error'')], 500) \<and>
   str_exn NotFound =
     ''404 Not Found: The requested URL was not found on the server. If you entered the URL manually please check your spelling and try again.''"
proof -
  have a: "snd (serve (env\<lparr>propagate_exceptions := True\<rparr>) now
            \<lparr>rows = [example_book 1 ''Old''], cache = []\<rparr> (GET_book 7)) =
       (JObj [(''error'', JStr (str_exn NotFound))], 400) \<and>
     snd (serve (env\<lparr>propagate_exceptions := True\<rparr>) now
            \<lparr>rows = [example_book 1 ''Old''], cache = []\<rparr>
            (PUT_book 7 (Inr (JObj [(''title'', JStr ''T''), (''author'', JStr ''A'')])))) =
       (JObj [(''error'', JStr (str_exn NotFound))], 400) \<and>
     snd (serve (env\<lparr>propagate_exceptions := True\<rparr>) now
            \<lparr>rows = [example_book 1 ''Old''], cache = []\<rparr> (DELETE_book 7)) =
       (JObj [(''error'', JStr (str_exn NotFound))], 400) \<and>
     snd (serve (env\<lparr>propagate_exceptions := False\<rparr>) now
            \<lparr>rows = [example_book 1 ''Old''], cache = []\<rparr> (GET_book 7)) =
       (JObj [(''message'', JStr ''Internal Server Error'')], 500) \<and>
     snd (serve (env\<lparr>propagate_exceptions := False\<rparr>) now
            \<lparr>rows = [example_book 1 ''Old''], cache = []\<rparr>
            (PUT_book 7 (Inr (JObj [(''title'', JStr ''T''), (''author'', JStr ''A'')])))) =
       (JObj [(''message'', JStr ''Internal Server Error'')], 500) \<and>
     snd (serve (env\<lparr>propagate_exceptions := False\<rparr>) now
            \<lparr>rows = [example_book 1 ''Old''], cache = []\<rparr> (DELETE_book 7)) =
       (JObj [(''message'', JStr ''Internal Server Error'')], 500)"
    by (simp add: serve_def dispatch_def BookResource_get_def cached_def cache_get_def
        make_cache_key_def except_Exception_def BookResource_get_body_def get_or_404_def
        get_by_id_def sqlite_int_def handle_validation_error_def internal_server_error_def
        BookResource_put_def BookResource_put_body_def BookResource_delete_def
        BookResource_delete_body_def example_book_def)
  have b: "str_exn NotFound =
       ''404 Not Found: The requested URL was not found on the server. If you entered the URL manually please check your spelling and try again.''"
    by code_simp
  show ?thesis using a b by simp
qed

text \<open>Claim C4 (the code departs from it). The key under which a single book's response is
  cached is \<^verbatim>\<open>book\<close> for every id, so after a lookup of book 1 a lookup of book 2
  one second later is answered with the cached response of book 1.\<close>

theorem C4_one_key_for_all_ids:
  "make_cache_key ''book'' (''/books/'' @ str_int i) = ''book'' \<and>
   snd (serve env 1
          (fst (serve env 0 \<lparr>rows = [example_book 1 ''First'', example_book 2 ''Second''], cache = []\<rparr>
                  (GET_book 1)))
          (GET_book 2)) =
     (JObj [(''status'', JStr ''success''), (''data'', dump (example_book 1 ''First''))], 200)"
  by (simp add: serve_def dispatch_def BookResource_get_def cached_def cache_get_def make_cache_key_def
      except_Exception_def BookResource_get_body_def get_or_404_def get_by_id_def sqlite_int_def
      cache_set_def cache_delete_def example_book_def)

subsection \<open>Reads after writes\<close>

text \<open>The cache itself works: deleting a key removes its entry, and an entry answers
  lookups for 300 seconds and no longer. So had the update deleted the key under which
  the view stores, the lookup after it would have run the view again.\<close>

lemma cache_delete_removes: "cache_get (cache_delete c key) now key = None"
proof -
  have "map_of (filter (\<lambda>(k, ev). k \<noteq> key) c) key = None"
    by (auto simp: map_of_eq_None_iff)
  then show ?thesis by (simp add: cache_get_def cache_delete_def)
qed

lemma cache_entry_lifetime:
  "cache_get (cache_set c now key v 300) (now + 299) key = Some v \<and>
   cache_get (cache_set c now key v 300) (now + 300) key = None"
  by (simp add: cache_get_def cache_set_def)

lemma lookup_after_expiry:
  "snd (serve env 300
          (fst (serve env 0 \<lparr>rows = [example_book 1 ''First'', example_book 2 ''Second''], cache = []\<rparr>
                  (GET_book 1)))
          (GET_book 2)) =
     (JObj [(''status'', JStr ''success''),
            (''data'', JObj [(''id'', JInt 2), (''title'', JStr ''Second''), (''author'', JStr ''A''),
                             (''published_date'', JNull), (''summary'', JNull)])], 200)"
  by (simp add: serve_def dispatch_def BookResource_get_def cached_def cache_get_def make_cache_key_def
      except_Exception_def BookResource_get_body_def get_or_404_def get_by_id_def sqlite_int_def
      cache_set_def cache_delete_def example_book_def dump_def json_opt_str_def)

text \<open>Claim C3 (the code departs from it). The keys the update and the delete remove,
  \<^verbatim>\<open>book<id>\<close> and \<^verbatim>\<open>books\<close>, are not keys the cached views store under, and
  the create removes none. So within the lifetime of an entry a lookup after an update
  returns the book as it was before, and a list request after a create or after a delete
  returns the list as it was before.\<close>

theorem C3_stale_reads_after_writes:
  "(let s0 = \<lparr>rows = [example_book 1 ''Old''], cache = []\<rparr>;
        s1 = fst (serve env 0 s0 (GET_book 1));
        w = serve env 1 s1 (PUT_book 1 (Inr (JObj [(''title'', JStr ''New''), (''author'', JStr ''A'')])))
    in snd w = (JObj [(''status'', JStr ''success''),
                          (''message'', JStr ''Book updated successfully''),
                          (''data'', dump (example_book 1 ''New''))], 200) \<and>
       rows (fst w) = [example_book 1 ''New''] \<and>
       snd (serve env 2 (fst w) (GET_book 1)) =
         (JObj [(''status'', JStr ''success''), (''data'', dump (example_book 1 ''Old''))], 200)) \<and>
   (let s0 = \<lparr>rows = [example_book 1 ''Old''], cache = []\<rparr>;
        lr = \<lparr>query_args = [],
              parse_args = Inr \<lparr>page = 1, per_page = 10, sort_field = None, order_arg = Asc,
                                search_query = None\<rparr>\<rparr>;
        s1 = fst (serve env 0 s0 (GET_books lr));
        w = serve env 1 s1 (POST_books (Inr (JObj [(''title'', JStr ''Added''), (''author'', JStr ''A'')])))
    in snd w = (JObj [(''status'', JStr ''success''),
                          (''message'', JStr ''Book created successfully''),
                          (''data'', dump (example_book 2 ''Added''))], 201) \<and>
       rows (fst w) = [example_book 1 ''Old'', example_book 2 ''Added''] \<and>
       snd (serve env 2 (fst w) (GET_books lr)) =
         (JObj [(''status'', JStr ''success''),
                    (''data'', JList [dump (example_book 1 ''Old'')]),
                    (''page'', JInt 1),
                    (''per_page'', JInt 10),
                    (''total_pages'', JInt 1),
                    (''total_items'', JInt 1),
                    (''search_query'', JNull)], 200)) \<and>
   (let s0 = \<lparr>rows = [example_book 1 ''Old''], cache = []\<rparr>;
        lr = \<lparr>query_args = [],
              parse_args = Inr \<lparr>page = 1, per_page = 10, sort_field = None, order_arg = Asc,
                                search_query = None\<rparr>\<rparr>;
        s1 = fst (serve env 0 s0 (GET_books lr));
        w = serve env 1 s1 (DELETE_book 1)
    in snd w = (JObj [(''status'', JStr ''success''),
                          (''message'', JStr ''Book deleted successfully'')], 200) \<and>
       rows (fst w) = [] \<and>
       snd (serve env 2 (fst w) (GET_books lr)) =
         (JObj [(''status'', JStr ''success''),
                    (''data'', JList [dump (example_book 1 ''Old'')]),
                    (''page'', JInt 1),
                    (''per_page'', JInt 10),
                    (''total_pages'', JInt 1),
                    (''total_items'', JInt 1),
                    (''search_query'', JNull)], 200))"
proof (intro conjI)
  note defs = serve_def dispatch_def BookResource_get_def cached_def cache_get_def make_cache_key_def
      except_Exception_def BookResource_get_body_def get_or_404_def get_by_id_def
      BookResource_put_def BookResource_put_body_def BookResource_delete_def BookResource_delete_body_def
      BookList_get_def BookList_get_body_def BookList_post_def BookList_post_body_def
      make_cache_key_query_string_def cache_set_def cache_delete_def example_book_def
      validate_def field_errors_def unknown_errors_def set_iteration_empty load_fields_def
      field_names_def Length_def sqlite_int_def
      new_Book_def session_add_commit_def new_id_def ids_def List.map_filter_def
      get_str_def get_opt_str_def commit_update_def session_delete_def str_int_def str_nat.simps
      apply_search_def apply_sort_def search_query_json_def paginate_def pages_def dump_many_def Let_def
  show "let s0 = \<lparr>rows = [example_book 1 ''Old''], cache = []\<rparr>;
        s1 = fst (serve env 0 s0 (GET_book 1));
        w = serve env 1 s1 (PUT_book 1 (Inr (JObj [(''title'', JStr ''New''), (''author'', JStr ''A'')])))
    in snd w = (JObj [(''status'', JStr ''success''),
                          (''message'', JStr ''Book updated successfully''),
                          (''data'', dump (example_book 1 ''New''))], 200) \<and>
       rows (fst w) = [example_book 1 ''New''] \<and>
       snd (serve env 2 (fst w) (GET_book 1)) =
         (JObj [(''status'', JStr ''success''), (''data'', dump (example_book 1 ''Old''))], 200)"
    by (simp add: defs)
  show "let s0 = \<lparr>rows = [example_book 1 ''Old''], cache = []\<rparr>;
        lr = \<lparr>query_args = [],
              parse_args = Inr \<lparr>page = 1, per_page = 10, sort_field = None, order_arg = Asc,
                                search_query = None\<rparr>\<rparr>;
        s1 = fst (serve env 0 s0 (GET_books lr));
        w = serve env 1 s1 (POST_books (Inr (JObj [(''title'', JStr ''Added''), (''author'', JStr ''A'')])))
    in snd w = (JObj [(''status'', JStr ''success''),
                          (''message'', JStr ''Book created successfully''),
                          (''data'', dump (example_book 2 ''Added''))], 201) \<and>
       rows (fst w) = [example_book 1 ''Old'', example_book 2 ''Added''] \<and>
       snd (serve env 2 (fst w) (GET_books lr)) =
         (JObj [(''status'', JStr ''success''),
                    (''data'', JList [dump (example_book 1 ''Old'')]),
                    (''page'', JInt 1),
                    (''per_page'', JInt 10),
                    (''total_pages'', JInt 1),
                    (''total_items'', JInt 1),
                    (''search_query'', JNull)], 200)"
    by (simp add: defs)
  show "let s0 = \<lparr>rows = [example_book 1 ''Old''], cache = []\<rparr>;
        lr = \<lparr>query_args = [],
              parse_args = Inr \<lparr>page = 1, per_page = 10, sort_field = None, order_arg = Asc,
                                search_query = None\<rparr>\<rparr>;
        s1 = fst (serve env 0 s0 (GET_books lr));
        w = serve env 1 s1 (DELETE_book 1)
    in snd w = (JObj [(''status'', JStr ''success''),
                          (''message'', JStr ''Book deleted successfully'')], 200) \<and>
       rows (fst w) = [] \<and>
       snd (serve env 2 (fst w) (GET_books lr)) =
         (JObj [(''status'', JStr ''success''),
                    (''data'', JList [dump (example_book 1 ''Old'')]),
                    (''page'', JInt 1),
                    (''per_page'', JInt 10),
                    (''total_pages'', JInt 1),
                    (''total_items'', JInt 1),
                    (''search_query'', JNull)], 200)"
    by (simp add: defs)
qed

end
